theory Spec2Isabelle
  imports Main "HOL-Library.Word" "HOL-Library.Sublist"
begin

section \<open>Data model\<close>

text \<open>
  The transport is the compiled pair \<^verbatim>\<open>sdp.js\<close> / \<^verbatim>\<open>transport.js\<close>. Bytes of a
  \<^verbatim>\<open>Uint8Array\<close> are 8-bit words, JavaScript strings are character lists, a thrown
  exception is the left summand of the result.
\<close>

type_synonym byte = "8 word"

text \<open>
  Modelled from the spec: the error constructors of \<^verbatim>\<open>error.js\<close>
  (\<^verbatim>\<open>inappropriateMultiaddr\<close>, \<^verbatim>\<open>invalidArgument\<close>, \<^verbatim>\<open>unsupportedHashAlgorithm\<close>),
  one constructor per error kind, each carrying the argument the call site passes.
  \<open>LibraryError\<close> is an exception raised inside an external library call and
  \<open>TypeError\<close> the JavaScript runtime error of a property access on
  \<^verbatim>\<open>null\<close> or \<^verbatim>\<open>undefined\<close>.
\<close>

datatype error =
    InappropriateMultiaddr string
  | InvalidArgument string
  | UnsupportedHashAlgorithm string
  | LibraryError string
  | TypeError

text \<open>
  A \<^verbatim>\<open>Multiaddr\<close> object is observed through its accessors only:
  \<^verbatim>\<open>stringTuples()\<close> (a tuple of a protocol without value has no second entry),
  \<^verbatim>\<open>protoNames()\<close>, \<^verbatim>\<open>protoCodes()\<close>, \<^verbatim>\<open>toOptions()\<close>,
  \<^verbatim>\<open>getPeerId()\<close> (\<^verbatim>\<open>null\<close> is \<open>None\<close>) and \<^verbatim>\<open>toString()\<close>.

  \<^verbatim>\<open>toOptions()\<close> is a call into the address library that throws on an address
  without a leading host and transport part (\<^verbatim>\<open>/webrtc/certhash/H/p2p/ID\<close> is one);
  when it returns, the object carries the host text and the port, which the library
  computes with \<^verbatim>\<open>parseInt\<close>: a number, or \<^verbatim>\<open>NaN\<close> when the part read as the port
  does not start with a digit.
\<close>

datatype js_number = Num nat | NaN

record MultiaddrObject =
  opts_host :: string
  opts_port :: js_number

record multiaddr =
  stringTuples :: "(nat \<times> string option) list"
  protoNames :: "string list"
  protoCodes :: "nat list"
  toOptions :: "error + MultiaddrObject"
  getPeerId :: "string option"
  toString :: string

text \<open>\<^verbatim>\<open>RTCDtlsFingerprint\<close>: both members are optional.\<close>

record RTCDtlsFingerprint =
  algorithm :: "string option"
  fpvalue :: "string option"

text \<open>\<^verbatim>\<open>RTCCertificate\<close>, observed through \<^verbatim>\<open>getFingerprints()\<close>.\<close>

record RTCCertificate =
  getFingerprints :: "RTCDtlsFingerprint list"

text \<open>
  \<^verbatim>\<open>RTCPeerConnection\<close>, observed through \<^verbatim>\<open>getConfiguration().certificates\<close>,
  an optional member.
\<close>

record RTCPeerConnection =
  certificates :: "RTCCertificate list option"

text \<open>\<^verbatim>\<open>RTCSessionDescriptionInit\<close>: a role tag and an optional SDP body.\<close>

record RTCSessionDescriptionInit =
  type :: string
  sdp :: "string option"

text \<open>The result of \<^verbatim>\<open>multihashes.decode\<close>, as far as the transport reads it.\<close>

record mhdecoded =
  name :: string
  digest :: "byte list"

text \<open>
  The external libraries (\<^verbatim>\<open>multiformats\<close>, \<^verbatim>\<open>multihashes\<close>, \<^verbatim>\<open>uint8arrays\<close>) are
  parameters of the model: \<^verbatim>\<open>mbdecoder.decode\<close>, \<^verbatim>\<open>multihashes.decode\<close>,
  \<^verbatim>\<open>multihashes.encode\<close>, the code table \<^verbatim>\<open>multihashes.names\<close> and
  \<^verbatim>\<open>uint8arrayFromString(_, 'hex')\<close>. Each call may throw.
\<close>

record libs =
  mbdecoder_decode :: "string \<Rightarrow> error + byte list"
  multihashes_decode :: "byte list \<Rightarrow> error + mhdecoded"
  multihashes_encode :: "byte list \<Rightarrow> nat \<Rightarrow> error + byte list"
  multihashes_names :: "string \<Rightarrow> nat"
  uint8arrayFromString_hex :: "string \<Rightarrow> error + byte list"

section \<open>JavaScript string primitives\<close>

definition LF :: char where
  "LF = CHR 0x0A"

definition CR :: char where
  "CR = CHR 0x0D"

text \<open>\<^verbatim>\<open>s.startsWith(p)\<close>.\<close>

definition startsWith :: "string \<Rightarrow> string \<Rightarrow> bool" where
  "startsWith s p = prefix p s"

text \<open>
  \<^verbatim>\<open>toUpperCase\<close> on the ASCII range, which is all the transport applies it to
  (protocol names, hash names, hexadecimal digits and colons).
\<close>

definition upper_char :: "char \<Rightarrow> char" where
  "upper_char c =
     (if of_char c \<ge> (97::nat) \<and> of_char c \<le> (122::nat)
      then char_of (of_char c - (32::nat)) else c)"

definition toUpperCase :: "string \<Rightarrow> string" where
  "toUpperCase s = map upper_char s"

text \<open>\<^verbatim>\<open>xs.join(sep)\<close>.\<close>

fun join :: "string \<Rightarrow> string list \<Rightarrow> string" where
  "join sep [] = []"
| "join sep [x] = x"
| "join sep (x # y # ys) = x @ sep @ join sep (y # ys)"

text \<open>\<^verbatim>\<open>s.replaceAll(':', '')\<close>.\<close>

definition remove_colons :: "string \<Rightarrow> string" where
  "remove_colons s = filter (\<lambda>c. c \<noteq> CHR '':'') s"

text \<open>\<^verbatim>\<open>byte.toString(16).padStart(2, '0')\<close>.\<close>

definition hex_digit :: "nat \<Rightarrow> char" where
  "hex_digit n = ''0123456789abcdef'' ! (n mod 16)"

definition byte_hex :: "byte \<Rightarrow> string" where
  "byte_hex b = [hex_digit (unat b div 16), hex_digit (unat b mod 16)]"

text \<open>
  \<^verbatim>\<open>s.match(/.{1,2}/g)\<close>: the successive matches of one or two characters other than
  line terminators; \<^verbatim>\<open>null\<close> (here \<open>None\<close>) when there is no match.
\<close>

definition line_terminator :: "char \<Rightarrow> bool" where
  "line_terminator c = (c = LF \<or> c = CR)"

fun match_pairs_all :: "string \<Rightarrow> string list" where
  "match_pairs_all [] = []"
| "match_pairs_all [c] = (if line_terminator c then [] else [[c]])"
| "match_pairs_all (c # d # cs) =
     (if line_terminator c then match_pairs_all (d # cs)
      else if line_terminator d then [c] # match_pairs_all cs
      else [c, d] # match_pairs_all cs)"

definition match_pairs :: "string \<Rightarrow> string list option" where
  "match_pairs s = (case match_pairs_all s of [] \<Rightarrow> None | m # ms \<Rightarrow> Some (m # ms))"

text \<open>A number rendered in a template literal: its decimal digits.\<close>

function string_of_nat :: "nat \<Rightarrow> string" where
  "string_of_nat n =
     (if n < 10 then [''0123456789'' ! n]
      else string_of_nat (n div 10) @ [''0123456789'' ! (n mod 10)])"
  by pat_completeness auto
termination
  by (relation "measure id") auto

text \<open>
  The port in the template literal: \<^verbatim>\<open>NaN\<close> renders as the three letters, a
  number as its decimal digits.
\<close>

definition number_toString :: "js_number \<Rightarrow> string" where
  "number_toString x = (case x of NaN \<Rightarrow> ''NaN'' | Num n \<Rightarrow> string_of_nat n)"

text \<open>\<^verbatim>\<open>uint8arrayFromString(s)\<close> with the default encoding, on ASCII text.\<close>

definition uint8arrayFromString :: "string \<Rightarrow> byte list" where
  "uint8arrayFromString s = map (\<lambda>c. of_nat (of_char c)) s"

section \<open>sdp.js\<close>

definition CERTHASH_CODE :: nat where
  "CERTHASH_CODE = 466"

definition ipv :: "multiaddr \<Rightarrow> string" where
  "ipv ma =
     (case find (\<lambda>proto. startsWith proto ''ip'') (protoNames ma) of
        Some proto \<Rightarrow> toUpperCase proto
      | None \<Rightarrow> ''IP6'')"

text \<open>
  \<^verbatim>\<open>ip\<close> and \<^verbatim>\<open>port\<close> each call \<^verbatim>\<open>ma.toOptions()\<close> and read one member of the
  result; an exception of the call is theirs.
\<close>

definition ip :: "multiaddr \<Rightarrow> error + string" where
  "ip ma = (case toOptions ma of Inl e \<Rightarrow> Inl e | Inr opts \<Rightarrow> Inr (opts_host opts))"

definition port :: "multiaddr \<Rightarrow> error + js_number" where
  "port ma = (case toOptions ma of Inl e \<Rightarrow> Inl e | Inr opts \<Rightarrow> Inr (opts_port opts))"

text \<open>
  \<^verbatim>\<open>certhash\<close>: the value of the first tuple with the certhash code. The test
  \<^verbatim>\<open>if (certhash_value)\<close> is a truthiness test: \<^verbatim>\<open>undefined\<close> (no such tuple, or a
  tuple without value) and the empty string both take the throwing branch.
\<close>

definition certhash_error :: "multiaddr \<Rightarrow> error" where
  "certhash_error ma =
     InappropriateMultiaddr (''Couldn't find a certhash component of multiaddr:'' @ toString ma)"

definition certhash :: "multiaddr \<Rightarrow> error + string" where
  "certhash ma =
     (case map snd (filter (\<lambda>tup. fst tup = CERTHASH_CODE) (stringTuples ma)) of
        [] \<Rightarrow> Inl (certhash_error ma)
      | None # _ \<Rightarrow> Inl (certhash_error ma)
      | Some certhash_value # _ \<Rightarrow>
          (if certhash_value = [] then Inl (certhash_error ma) else Inr certhash_value))"

text \<open>
  \<^verbatim>\<open>certhashToFingerprint\<close>: the switch on the decoded hash name, then the digest as
  lowercase hexadecimal text \<open>fp\<close>, regrouped in colon-separated pairs. The function
  returns the display string and \<open>fp\<close>.
\<close>

definition hash_prefix :: "string \<Rightarrow> error + string" where
  "hash_prefix n =
     (if n = ''md5'' then Inr ''md5''
      else if n = ''sha2-256'' then Inr ''sha-256''
      else if n = ''sha2-512'' then Inr ''sha-512''
      else Inl (UnsupportedHashAlgorithm n))"

definition certhashToFingerprint :: "libs \<Rightarrow> multiaddr \<Rightarrow> error + (string \<times> string)" where
  "certhashToFingerprint L ma =
     (case certhash ma of
        Inl e \<Rightarrow> Inl e
      | Inr certhash_value \<Rightarrow>
     (case mbdecoder_decode L certhash_value of
        Inl e \<Rightarrow> Inl e
      | Inr mbdecoded \<Rightarrow>
     (case multihashes_decode L mbdecoded of
        Inl e \<Rightarrow> Inl e
      | Inr mhd \<Rightarrow>
     (case hash_prefix (name mhd) of
        Inl e \<Rightarrow> Inl e
      | Inr pfx \<Rightarrow>
     (let fp = concat (map byte_hex (digest mhd)) in
      case match_pairs fp of
        None \<Rightarrow> Inl TypeError
      | Some pairs \<Rightarrow>
          (let fpSdp = join '':'' pairs
           in Inr (toUpperCase pfx @ '' '' @ toUpperCase fpSdp, fp)))))))"

text \<open>
  \<^verbatim>\<open>ma2sdp\<close>: the four \<^verbatim>\<open>const\<close> declarations in their order, then the template
  literal, line by line. The host is read first, then the IP version, then the port,
  then the fingerprint is derived: an exception of \<^verbatim>\<open>toOptions()\<close> leaves the function
  before the certhash component is looked at, and an exception of the derivation leaves
  it before any text is built.
\<close>

definition ma2sdp :: "libs \<Rightarrow> multiaddr \<Rightarrow> string \<Rightarrow> error + string" where
  "ma2sdp L ma ufrag =
     (case ip ma of
        Inl e \<Rightarrow> Inl e
      | Inr IP \<Rightarrow>
     (let IPVERSION = ipv ma in
      case port ma of
        Inl e \<Rightarrow> Inl e
      | Inr port_number \<Rightarrow>
     (let PORT = number_toString port_number in
      case certhashToFingerprint L ma of
        Inl e \<Rightarrow> Inl e
      | Inr (CERTFP, _) \<Rightarrow> Inr (
          ''v=0'' @ [LF] @
          ''o=- 0 0 IN '' @ IPVERSION @ '' '' @ IP @ [LF] @
          ''s=-'' @ [LF] @
          ''c=IN '' @ IPVERSION @ '' '' @ IP @ [LF] @
          ''t=0 0'' @ [LF] @
          ''a=ice-lite'' @ [LF] @
          ''m=application '' @ PORT @ '' UDP/DTLS/SCTP webrtc-datachannel'' @ [LF] @
          ''a=mid:0'' @ [LF] @
          ''a=setup:passive'' @ [LF] @
          ''a=ice-ufrag:'' @ ufrag @ [LF] @
          ''a=ice-pwd:'' @ ufrag @ [LF] @
          ''a=fingerprint:'' @ CERTFP @ [LF] @
          ''a=sctp-port:5000'' @ [LF] @
          ''a=max-message-size:100000'' @ [LF] @
          ''a=candidate:1467250027 1 UDP 1467250027 '' @ IP @ '' '' @ PORT @ '' typ host'' @
          [CR, LF]))))"

definition fromMultiAddr :: "libs \<Rightarrow> multiaddr \<Rightarrow> string \<Rightarrow> error + RTCSessionDescriptionInit" where
  "fromMultiAddr L ma ufrag =
     (case ma2sdp L ma ufrag of
        Inl e \<Rightarrow> Inl e
      | Inr s \<Rightarrow> Inr \<lparr>type = ''answer'', sdp = Some s\<rparr>)"

subsection \<open>The two replacements of \<^verbatim>\<open>munge\<close>\<close>

text \<open>
  Both regular expressions have the shape \<^verbatim>\<open>/\nKEY[^\n]*\n/\<close>. A match anchored at the
  head of the text is a line feed, the key, the characters up to the next line feed, and
  that line feed; without a following line feed there is no match at this position.
  The result is the matched text and the text after it.
\<close>

definition match_here :: "string \<Rightarrow> string \<Rightarrow> (string \<times> string) option" where
  "match_here key s =
     (if prefix (LF # key) s then
        (let r = drop (Suc (length key)) s;
             body = takeWhile (\<lambda>c. c \<noteq> LF) r
         in case dropWhile (\<lambda>c. c \<noteq> LF) r of
              [] \<Rightarrow> None
            | _ # following \<Rightarrow> Some (LF # key @ body @ [LF], following))
      else None)"

text \<open>
  The leftmost match: the text preceding it (accumulated in \<open>preceding\<close>), the
  match, and the text following it.
\<close>

fun regex_exec :: "string \<Rightarrow> string \<Rightarrow> string \<Rightarrow> (string \<times> string \<times> string) option" where
  "regex_exec key preceding [] = None"
| "regex_exec key preceding (c # cs) =
     (case match_here key (c # cs) of
        Some (matched, following) \<Rightarrow> Some (preceding, matched, following)
      | None \<Rightarrow> regex_exec key (preceding @ [c]) cs)"

text \<open>
  The replacement text of \<^verbatim>\<open>String.prototype.replace\<close> is a template: \<^verbatim>\<open>$$\<close>
  stands for a dollar sign, \<^verbatim>\<open>$&\<close> for the match, \<^verbatim>\<open>$`\<close> (dollar, backtick) for the
  text preceding it and \<^verbatim>\<open>$'\<close> (dollar, apostrophe) for the text following it. The two
  expressions have no capture group, so every other use of the dollar sign is literal.
\<close>

fun getSubstitution :: "string \<Rightarrow> string \<Rightarrow> string \<Rightarrow> string \<Rightarrow> string" where
  "getSubstitution matched preceding following [] = []"
| "getSubstitution matched preceding following [c] = [c]"
| "getSubstitution matched preceding following (c # d # r) =
     (if c = CHR ''$'' \<and> d = CHR ''$''
      then CHR ''$'' # getSubstitution matched preceding following r
      else if c = CHR ''$'' \<and> d = CHR ''&''
      then matched @ getSubstitution matched preceding following r
      else if c = CHR ''$'' \<and> d = CHR 0x60
      then preceding @ getSubstitution matched preceding following r
      else if c = CHR ''$'' \<and> d = CHR 0x27
      then following @ getSubstitution matched preceding following r
      else c # getSubstitution matched preceding following (d # r))"

text \<open>\<^verbatim>\<open>s.replace(/\nKEY[^\n]*\n/, replacement)\<close>: only the leftmost match is replaced.\<close>

definition replace_first :: "string \<Rightarrow> string \<Rightarrow> string \<Rightarrow> string" where
  "replace_first key replacement s =
     (case regex_exec key [] s of
        None \<Rightarrow> s
      | Some (preceding, matched, following) \<Rightarrow>
          preceding @ getSubstitution matched preceding following replacement @ following)"

definition ufrag_key :: string where
  "ufrag_key = ''a=ice-ufrag:''"

definition pwd_key :: string where
  "pwd_key = ''a=ice-pwd:''"

definition munge_sdp :: "string \<Rightarrow> string \<Rightarrow> string" where
  "munge_sdp ufrag s =
     replace_first pwd_key (LF # pwd_key @ ufrag @ [LF])
       (replace_first ufrag_key (LF # ufrag_key @ ufrag @ [LF]) s)"

text \<open>
  \<^verbatim>\<open>munge\<close> assigns to \<^verbatim>\<open>desc.sdp\<close> and returns \<^verbatim>\<open>desc\<close>. The model returns the
  description object as the call leaves it, and the outcome of the call: the thrown
  error, or the returned object. \<^verbatim>\<open>if (desc.sdp)\<close> is a truthiness test: a missing body
  and the empty body both throw.
\<close>

definition munge ::
  "RTCSessionDescriptionInit \<Rightarrow> string \<Rightarrow>
     RTCSessionDescriptionInit \<times> (error + RTCSessionDescriptionInit)" where
  "munge desc ufrag =
     (case sdp desc of
        None \<Rightarrow> (desc, Inl (InvalidArgument ''Can't munge a missing SDP''))
      | Some s \<Rightarrow>
          (if s = [] then (desc, Inl (InvalidArgument ''Can't munge a missing SDP''))
           else (let desc' = desc\<lparr>sdp := Some (munge_sdp ufrag s)\<rparr> in (desc', Inr desc'))))"

section \<open>transport.js\<close>

definition WEBRTC_CODE :: nat where
  "WEBRTC_CODE = 280"

definition validMa :: "multiaddr \<Rightarrow> bool" where
  "validMa ma =
     (WEBRTC_CODE \<in> set (protoCodes ma) \<and> CERTHASH_CODE \<in> set (protoCodes ma)
      \<and> getPeerId ma \<noteq> None)"

definition filter_ma :: "multiaddr list \<Rightarrow> multiaddr list" where
  "filter_ma multiaddrs = filter validMa multiaddrs"

text \<open>
  \<^verbatim>\<open>generateNoisePrologue\<close>. The hexadecimal value of the first fingerprint is decoded
  before its algorithm is tested; the result is the prefix, then the local multihash,
  then the remote multihash, in this order.
\<close>

definition noise_prefix :: "byte list" where
  "noise_prefix = uint8arrayFromString ''libp2p-webrtc-noise:''"

definition generateNoisePrologue :: "libs \<Rightarrow> RTCPeerConnection \<Rightarrow> multiaddr \<Rightarrow> error + byte list" where
  "generateNoisePrologue L pc ma =
     (if (case certificates pc of Some cs \<Rightarrow> length cs = 0 | None \<Rightarrow> False)
      then Inl (InvalidArgument ''no local certificate'')
      else
     (case (case certificates pc of Some (c # _) \<Rightarrow> Some c | _ \<Rightarrow> None) of
        None \<Rightarrow> Inl (InvalidArgument ''no fingerprint on local certificate'')
      | Some localCert \<Rightarrow>
     (case getFingerprints localCert of
        [] \<Rightarrow> Inl (InvalidArgument ''no fingerprint on local certificate'')
      | localFingerprint # _ \<Rightarrow>
     (case fpvalue localFingerprint of
        None \<Rightarrow> Inl TypeError
      | Some v \<Rightarrow>
     (let localFpString = remove_colons v in
      case uint8arrayFromString_hex L localFpString of
        Inl e \<Rightarrow> Inl e
      | Inr localFpArray \<Rightarrow>
     (if algorithm localFingerprint \<noteq> Some ''sha-256''
      then Inl (UnsupportedHashAlgorithm
                 (case algorithm localFingerprint of
                    None \<Rightarrow> ''none''
                  | Some a \<Rightarrow> if a = [] then ''none'' else a))
      else
     (case multihashes_encode L localFpArray (multihashes_names L ''sha2-256'') of
        Inl e \<Rightarrow> Inl e
      | Inr local \<Rightarrow>
     (case certhash ma of
        Inl e \<Rightarrow> Inl e
      | Inr certhash_value \<Rightarrow>
     (case mbdecoder_decode L certhash_value of
        Inl e \<Rightarrow> Inl e
      | Inr remote \<Rightarrow> Inr (concat [noise_prefix, local, remote]))))))))))"

text \<open>
  The two halves of \<^verbatim>\<open>generateNoisePrologue\<close>, named: the statements that compute
  \<^verbatim>\<open>local\<close> from the peer connection, and the expression that computes \<^verbatim>\<open>remote\<close>
  from the address. The function runs the first to its end before it starts the second.
\<close>

definition local_multihash :: "libs \<Rightarrow> RTCPeerConnection \<Rightarrow> error + byte list" where
  "local_multihash L pc =
     (if (case certificates pc of Some cs \<Rightarrow> length cs = 0 | None \<Rightarrow> False)
      then Inl (InvalidArgument ''no local certificate'')
      else
     (case (case certificates pc of Some (c # _) \<Rightarrow> Some c | _ \<Rightarrow> None) of
        None \<Rightarrow> Inl (InvalidArgument ''no fingerprint on local certificate'')
      | Some localCert \<Rightarrow>
     (case getFingerprints localCert of
        [] \<Rightarrow> Inl (InvalidArgument ''no fingerprint on local certificate'')
      | localFingerprint # _ \<Rightarrow>
     (case fpvalue localFingerprint of
        None \<Rightarrow> Inl TypeError
      | Some v \<Rightarrow>
     (let localFpString = remove_colons v in
      case uint8arrayFromString_hex L localFpString of
        Inl e \<Rightarrow> Inl e
      | Inr localFpArray \<Rightarrow>
     (if algorithm localFingerprint \<noteq> Some ''sha-256''
      then Inl (UnsupportedHashAlgorithm
                 (case algorithm localFingerprint of
                    None \<Rightarrow> ''none''
                  | Some a \<Rightarrow> if a = [] then ''none'' else a))
      else multihashes_encode L localFpArray (multihashes_names L ''sha2-256'')))))))"

definition remote_multihash :: "libs \<Rightarrow> multiaddr \<Rightarrow> error + byte list" where
  "remote_multihash L ma =
     (case certhash ma of
        Inl e \<Rightarrow> Inl e
      | Inr certhash_value \<Rightarrow> mbdecoder_decode L certhash_value)"

text \<open>
  The superseded draft of \<^verbatim>\<open>generateNoisePrologue\<close> ends differently:
  \<^verbatim>\<open>[local, remote].sort()\<close>, then the concatenation of the prefix and the sorted
  pair. \<^verbatim>\<open>Array.prototype.sort\<close> without a comparison function orders its elements by
  their string renderings, compared character by character, and keeps the order of two
  elements that render alike; a \<^verbatim>\<open>Uint8Array\<close> renders as its decimal numbers joined
  by commas.
\<close>

definition typedArray_toString :: "byte list \<Rightarrow> string" where
  "typedArray_toString bs = join '','' (map (\<lambda>b. string_of_nat (unat b)) bs)"

fun string_less :: "string \<Rightarrow> string \<Rightarrow> bool" where
  "string_less [] [] = False"
| "string_less [] (y # ys) = True"
| "string_less (x # xs) [] = False"
| "string_less (x # xs) (y # ys) =
     ((of_char x :: nat) < of_char y \<or> (x = y \<and> string_less xs ys))"

definition draft_sorted_prologue :: "byte list \<Rightarrow> byte list \<Rightarrow> byte list" where
  "draft_sorted_prologue local remote =
     (if string_less (typedArray_toString remote) (typedArray_toString local)
      then concat [noise_prefix, remote, local]
      else concat [noise_prefix, local, remote])"

section \<open>A reference instance of the libraries\<close>

text \<open>
  For evaluating the transport on concrete inputs the library parameter is instantiated
  with the published wire formats: base16 text (lowercase digits); unpadded base64url
  text, decoded six bits a character the way the \<^verbatim>\<open>rfc4648\<close> decoder of
  \<^verbatim>\<open>multiformats\<close> does; the multibase prefixes \<^verbatim>\<open>f\<close> (base16) and \<^verbatim>\<open>u\<close> (base64url);
  and the multihash layout \<open>varint code @ varint length @ digest\<close> with the codes of
  sha1, sha2-256, sha2-512 and md5. Inputs outside this fragment are reported as library
  errors.
\<close>

definition hex_value :: "char \<Rightarrow> nat option" where
  "hex_value c =
     (let n = (of_char c :: nat) in
      if 48 \<le> n \<and> n \<le> 57 then Some (n - 48)
      else if 97 \<le> n \<and> n \<le> 102 then Some (n - 87)
      else None)"

fun base16_decode :: "string \<Rightarrow> error + byte list" where
  "base16_decode [] = Inr []"
| "base16_decode [c] = Inl (LibraryError ''Unexpected end of data'')"
| "base16_decode (c # d # cs) =
     (case (hex_value c, hex_value d) of
        (Some h, Some l) \<Rightarrow>
          (case base16_decode cs of
             Inl e \<Rightarrow> Inl e
           | Inr bs \<Rightarrow> Inr (of_nat (16 * h + l) # bs))
      | _ \<Rightarrow> Inl (LibraryError ''Non-base16 character''))"

definition base64url_value :: "char \<Rightarrow> nat option" where
  "base64url_value c =
     (let n = (of_char c :: nat) in
      if 65 \<le> n \<and> n \<le> 90 then Some (n - 65)
      else if 97 \<le> n \<and> n \<le> 122 then Some (n - 71)
      else if 48 \<le> n \<and> n \<le> 57 then Some (n + 4)
      else if n = 45 then Some 62
      else if n = 95 then Some 63
      else None)"

text \<open>
  The decoder keeps \<open>bits\<close> pending bits in \<open>buffer\<close>, emits a byte as soon as eight
  are available, and at the end of the text refuses six or more pending bits and
  pending bits that are not zero.
\<close>

fun base64url_loop :: "nat \<Rightarrow> nat \<Rightarrow> string \<Rightarrow> error + byte list" where
  "base64url_loop bits buffer [] =
     (if bits \<ge> 6 \<or> (buffer * 2 ^ (8 - bits)) mod 256 \<noteq> 0
      then Inl (LibraryError ''Unexpected end of data'')
      else Inr [])"
| "base64url_loop bits buffer (c # cs) =
     (case base64url_value c of
        None \<Rightarrow> Inl (LibraryError ''Non-base64url character'')
      | Some v \<Rightarrow>
          (if bits + 6 \<ge> 8 then
             (case base64url_loop (bits + 6 - 8) ((buffer * 64 + v) mod 2 ^ (bits + 6 - 8)) cs of
                Inl e \<Rightarrow> Inl e
              | Inr out \<Rightarrow> Inr (of_nat ((buffer * 64 + v) div 2 ^ (bits + 6 - 8)) # out))
           else base64url_loop (bits + 6) (buffer * 64 + v) cs))"

definition base64url_decode :: "string \<Rightarrow> error + byte list" where
  "base64url_decode s = base64url_loop 0 0 s"

definition multibase_decode :: "string \<Rightarrow> error + byte list" where
  "multibase_decode s =
     (case s of
        [] \<Rightarrow> Inl (LibraryError ''Empty string'')
      | c # r \<Rightarrow>
          (if c = CHR ''f'' then base16_decode r
           else if c = CHR ''u'' then base64url_decode r
           else Inl (LibraryError ''Unsupported multibase prefix'')))"

function varint_encode :: "nat \<Rightarrow> byte list" where
  "varint_encode n =
     (if n < 128 then [of_nat n]
      else of_nat (128 + n mod 128) # varint_encode (n div 128))"
  by pat_completeness auto
termination
  by (relation "measure id") auto

fun varint_decode :: "byte list \<Rightarrow> (nat \<times> byte list) option" where
  "varint_decode [] = None"
| "varint_decode (b # bs) =
     (if unat b < 128 then Some (unat b, bs)
      else (case varint_decode bs of
              None \<Rightarrow> None
            | Some (n, r) \<Rightarrow> Some (unat b - 128 + 128 * n, r)))"

definition hash_names :: "string \<Rightarrow> nat" where
  "hash_names n =
     (if n = ''sha1'' then 0x11
      else if n = ''sha2-256'' then 0x12
      else if n = ''sha2-512'' then 0x13
      else if n = ''md5'' then 0xd5
      else 0)"

definition hash_codes :: "nat \<Rightarrow> string option" where
  "hash_codes c =
     (if c = 0x11 then Some ''sha1''
      else if c = 0x12 then Some ''sha2-256''
      else if c = 0x13 then Some ''sha2-512''
      else if c = 0xd5 then Some ''md5''
      else None)"

definition multihash_encode :: "byte list \<Rightarrow> nat \<Rightarrow> error + byte list" where
  "multihash_encode d code = Inr (varint_encode code @ varint_encode (length d) @ d)"

definition multihash_decode :: "byte list \<Rightarrow> error + mhdecoded" where
  "multihash_decode bytes =
     (if length bytes < 2 then Inl (LibraryError ''multihash too short'')
      else
     (case varint_decode bytes of
        None \<Rightarrow> Inl (LibraryError ''invalid varint'')
      | Some (code, r) \<Rightarrow>
     (case hash_codes code of
        None \<Rightarrow> Inl (LibraryError ''multihash unknown function code'')
      | Some n \<Rightarrow>
     (case varint_decode r of
        None \<Rightarrow> Inl (LibraryError ''invalid varint'')
      | Some (len, d) \<Rightarrow>
          (if length d \<noteq> len then Inl (LibraryError ''multihash length inconsistent'')
           else Inr \<lparr>name = n, digest = d\<rparr>)))))"

definition reference_libs :: libs where
  "reference_libs =
     \<lparr>mbdecoder_decode = multibase_decode,
      multihashes_decode = multihash_decode,
      multihashes_encode = multihash_encode,
      multihashes_names = hash_names,
      uint8arrayFromString_hex = base16_decode\<rparr>"

section \<open>Concrete addresses\<close>

text \<open>
  The four addresses of the filter test, as their accessors report them: protocol codes
  4 (ip4), 273 (udp), 280 (webrtc), 466 (certhash), 421 (p2p). A fifth address has the
  shape of the listener test's address and another certhash.
\<close>

definition test_certhash :: string where
  "test_certhash = ''uEiAUqV7kzvM1wI5DYDc1RbcekYVmXli_Qprlw3IkiEg6tQ''"

definition test_peer :: string where
  "test_peer = ''12D3KooWGDMwwqrpcYKpKCgxuKT2NfqPqa94QnkoBBpqvCaiCzWd''"

definition addr1 :: multiaddr where
  "addr1 =
     \<lparr>stringTuples = [(4, Some ''1.2.3.4''), (273, Some ''1234''), (280, None),
                      (466, Some test_certhash)],
      protoNames = [''ip4'', ''udp'', ''webrtc'', ''certhash''],
      protoCodes = [4, 273, 280, 466],
      toOptions = Inr \<lparr>opts_host = ''1.2.3.4'', opts_port = Num 1234\<rparr>,
      getPeerId = None,
      toString = ''/ip4/1.2.3.4/udp/1234/webrtc/certhash/'' @ test_certhash\<rparr>"

definition addr2 :: multiaddr where
  "addr2 =
     \<lparr>stringTuples = [(4, Some ''1.2.3.4''), (273, Some ''1234''), (280, None),
                      (466, Some test_certhash), (421, Some test_peer)],
      protoNames = [''ip4'', ''udp'', ''webrtc'', ''certhash'', ''p2p''],
      protoCodes = [4, 273, 280, 466, 421],
      toOptions = Inr \<lparr>opts_host = ''1.2.3.4'', opts_port = Num 1234\<rparr>,
      getPeerId = Some test_peer,
      toString = ''/ip4/1.2.3.4/udp/1234/webrtc/certhash/'' @ test_certhash
                 @ ''/p2p/'' @ test_peer\<rparr>"

definition addr3 :: multiaddr where
  "addr3 =
     \<lparr>stringTuples = [(4, Some ''1.2.3.4''), (273, Some ''1234''), (280, None),
                      (421, Some test_peer)],
      protoNames = [''ip4'', ''udp'', ''webrtc'', ''p2p''],
      protoCodes = [4, 273, 280, 421],
      toOptions = Inr \<lparr>opts_host = ''1.2.3.4'', opts_port = Num 1234\<rparr>,
      getPeerId = Some test_peer,
      toString = ''/ip4/1.2.3.4/udp/1234/webrtc/p2p/'' @ test_peer\<rparr>"

definition addr4 :: multiaddr where
  "addr4 =
     \<lparr>stringTuples = [(4, Some ''1.2.3.4''), (273, Some ''1234''),
                      (466, Some test_certhash), (421, Some test_peer)],
      protoNames = [''ip4'', ''udp'', ''certhash'', ''p2p''],
      protoCodes = [4, 273, 466, 421],
      toOptions = Inr \<lparr>opts_host = ''1.2.3.4'', opts_port = Num 1234\<rparr>,
      getPeerId = Some test_peer,
      toString = ''/ip4/1.2.3.4/udp/1234/certhash/'' @ test_certhash
                 @ ''/p2p/'' @ test_peer\<rparr>"

definition certhash_B :: string where
  "certhash_B = ''uEiCqEMqK00oTPBJ87G7uTUePqN-ZXP4tZ70HmcFCdntyhg''"

definition addr_B :: multiaddr where
  "addr_B =
     \<lparr>stringTuples = [(4, Some ''192.168.0.152''), (273, Some ''40972''), (280, None),
                      (466, Some certhash_B)],
      protoNames = [''ip4'', ''udp'', ''webrtc'', ''certhash''],
      protoCodes = [4, 273, 280, 466],
      toOptions = Inr \<lparr>opts_host = ''192.168.0.152'', opts_port = Num 40972\<rparr>,
      getPeerId = None,
      toString = ''/ip4/192.168.0.152/udp/40972/webrtc/certhash/'' @ certhash_B\<rparr>"

definition md5_digest :: "byte list" where
  "md5_digest = [0xde, 0xad, 0xbe, 0xef, 0x00, 0x01, 0x02, 0x03,
                 0x04, 0x05, 0x06, 0x07, 0x08, 0x09, 0x0a, 0x0b]"

text \<open>
  The base64url multibase text of the md5 multihash of \<open>md5_digest\<close>: the bytes
  \<^verbatim>\<open>d5 01\<close> (code), \<^verbatim>\<open>10\<close> (length), then the sixteen digest bytes.
\<close>

definition md5_certhash :: string where
  "md5_certhash = ''u1QEQ3q2-7wABAgMEBQYHCAkKCw''"

definition addr_md5 :: multiaddr where
  "addr_md5 =
     \<lparr>stringTuples = [(4, Some ''1.2.3.4''), (273, Some ''1234''), (280, None),
                      (466, Some md5_certhash), (421, Some test_peer)],
      protoNames = [''ip4'', ''udp'', ''webrtc'', ''certhash'', ''p2p''],
      protoCodes = [4, 273, 280, 466, 421],
      toOptions = Inr \<lparr>opts_host = ''1.2.3.4'', opts_port = Num 1234\<rparr>,
      getPeerId = Some test_peer,
      toString = ''/ip4/1.2.3.4/udp/1234/webrtc/certhash/'' @ md5_certhash
                 @ ''/p2p/'' @ test_peer\<rparr>"

text \<open>
  An address whose certhash is a sha1 multihash: the bytes \<^verbatim>\<open>11\<close> (code), \<^verbatim>\<open>14\<close>
  (length), then the twenty digest bytes \<^verbatim>\<open>0f 1e 2d .. 23 34\<close>.
\<close>

definition sha1_certhash :: string where
  "sha1_certhash = ''uERQPHi08S1ppeIeWpbTD0uHwARIjNA''"

definition addr_sha1 :: multiaddr where
  "addr_sha1 =
     \<lparr>stringTuples = [(4, Some ''1.2.3.4''), (273, Some ''1234''), (280, None),
                      (466, Some sha1_certhash), (421, Some test_peer)],
      protoNames = [''ip4'', ''udp'', ''webrtc'', ''certhash'', ''p2p''],
      protoCodes = [4, 273, 280, 466, 421],
      toOptions = Inr \<lparr>opts_host = ''1.2.3.4'', opts_port = Num 1234\<rparr>,
      getPeerId = Some test_peer,
      toString = ''/ip4/1.2.3.4/udp/1234/webrtc/certhash/'' @ sha1_certhash
                 @ ''/p2p/'' @ test_peer\<rparr>"

text \<open>
  Two sha2-256 multihashes (code \<^verbatim>\<open>12\<close>, length \<^verbatim>\<open>20\<close>): \<open>fingerprint_A\<close> is what
  the certhash of the filter test's addresses decodes to, \<open>fingerprint_B\<close> what the
  certhash of \<open>addr_B\<close> decodes to. Each also appears as the fingerprint of a local
  certificate.
\<close>

definition fingerprint_A :: "byte list" where
  "fingerprint_A =
     [0x12, 0x20, 0x14, 0xa9, 0x5e, 0xe4, 0xce, 0xf3, 0x35, 0xc0, 0x8e, 0x43, 0x60, 0x37, 0x35,
      0x45, 0xb7, 0x1e, 0x91, 0x85, 0x66, 0x5e, 0x58, 0xbf, 0x42, 0x9a, 0xe5, 0xc3, 0x72, 0x24,
      0x88, 0x48, 0x3a, 0xb5]"

definition fingerprint_B :: "byte list" where
  "fingerprint_B =
     [0x12, 0x20, 0xaa, 0x10, 0xca, 0x8a, 0xd3, 0x4a, 0x13, 0x3c, 0x12, 0x7c, 0xec, 0x6e, 0xee,
      0x4d, 0x47, 0x8f, 0xa8, 0xdf, 0x99, 0x5c, 0xfe, 0x2d, 0x67, 0xbd, 0x07, 0x99, 0xc1, 0x42,
      0x76, 0x7b, 0x72, 0x86]"

definition fp_A :: RTCDtlsFingerprint where
  "fp_A = \<lparr>algorithm = Some ''sha-256'',
           fpvalue = Some (''14:a9:5e:e4:ce:f3:35:c0:8e:43:60:37:35:45:b7:1e:''
                           @ ''91:85:66:5e:58:bf:42:9a:e5:c3:72:24:88:48:3a:b5'')\<rparr>"

definition fp_B :: RTCDtlsFingerprint where
  "fp_B = \<lparr>algorithm = Some ''sha-256'',
           fpvalue = Some (''aa:10:ca:8a:d3:4a:13:3c:12:7c:ec:6e:ee:4d:47:8f:''
                           @ ''a8:df:99:5c:fe:2d:67:bd:07:99:c1:42:76:7b:72:86'')\<rparr>"


definition pc_A :: RTCPeerConnection where
  "pc_A = \<lparr>certificates = Some [\<lparr>getFingerprints = [fp_A]\<rparr>]\<rparr>"

definition pc_B :: RTCPeerConnection where
  "pc_B = \<lparr>certificates = Some [\<lparr>getFingerprints = [fp_B]\<rparr>]\<rparr>"


text \<open>Byte-lexicographic order on byte strings.\<close>

fun bytes_less :: "byte list \<Rightarrow> byte list \<Rightarrow> bool" where
  "bytes_less [] [] = False"
| "bytes_less [] (y # ys) = True"
| "bytes_less (x # xs) [] = False"
| "bytes_less (x # xs) (y # ys) = (x < y \<or> (x = y \<and> bytes_less xs ys))"

section \<open>The fingerprint display string, as specified\<close>

text \<open>
  The supported algorithms, their multihash names and display tags, and the display
  string: the tag, a space, and the digest bytes as uppercase two-digit hexadecimal
  pairs joined by colons.
\<close>

datatype hash_algorithm = MD5 | SHA_256 | SHA_512

fun multihash_name :: "hash_algorithm \<Rightarrow> string" where
  "multihash_name MD5 = ''md5''"
| "multihash_name SHA_256 = ''sha2-256''"
| "multihash_name SHA_512 = ''sha2-512''"

fun display_tag :: "hash_algorithm \<Rightarrow> string" where
  "display_tag MD5 = ''MD5''"
| "display_tag SHA_256 = ''SHA-256''"
| "display_tag SHA_512 = ''SHA-512''"

definition HEX_digit :: "nat \<Rightarrow> char" where
  "HEX_digit n = ''0123456789ABCDEF'' ! (n mod 16)"

definition byte_HEX :: "byte \<Rightarrow> string" where
  "byte_HEX b = [HEX_digit (unat b div 16), HEX_digit (unat b mod 16)]"

definition fingerprint_display :: "hash_algorithm \<Rightarrow> byte list \<Rightarrow> string" where
  "fingerprint_display A D = display_tag A @ '' '' @ join '':'' (map byte_HEX D)"

section \<open>Lines of an SDP text\<close>

text \<open>
  The segments of a text between its line feeds, the way \<^verbatim>\<open>s.split('\n')\<close> cuts it:
  a text with \<open>n\<close> line feeds has \<open>n + 1\<close> segments, the last one being what follows
  the last line feed.
\<close>

fun split_lines :: "string \<Rightarrow> string list" where
  "split_lines [] = [[]]"
| "split_lines (c # cs) =
     (if c = LF then [] # split_lines cs
      else (case split_lines cs of [] \<Rightarrow> [[c]] | l # ls \<Rightarrow> (c # l) # ls))"


text \<open>
  The newline-delimited lines of a text are the segments that a line feed precedes and a
  line feed ends: all segments but the first and the last.
\<close>

definition delimited_lines :: "string \<Rightarrow> string list" where
  "delimited_lines s = butlast (tl (split_lines s))"

text \<open>
  Rewriting, in a list of segments, the first newline-delimited line that starts with
  \<open>key\<close> to \<open>key @ u\<close>; every other segment is kept. \<open>rewrite_terminated\<close> works on
  the segments after the first one and never touches the last.
\<close>

fun rewrite_terminated :: "string \<Rightarrow> string \<Rightarrow> string list \<Rightarrow> string list" where
  "rewrite_terminated key u [] = []"
| "rewrite_terminated key u [l] = [l]"
| "rewrite_terminated key u (l # l' # ls) =
     (if prefix key l then (key @ u) # l' # ls
      else l # rewrite_terminated key u (l' # ls))"

definition rewrite_first_line :: "string \<Rightarrow> string \<Rightarrow> string list \<Rightarrow> string list" where
  "rewrite_first_line key u segments =
     (case segments of
        [] \<Rightarrow> []
      | first # rest \<Rightarrow> first # rewrite_terminated key u rest)"

text \<open>
  A text carries a replacement pattern when a dollar sign in it is followed by a dollar
  sign, an ampersand, a backtick or an apostrophe: the four pairs that
  \<^verbatim>\<open>String.prototype.replace\<close> expands in a replacement text when the expression has no
  capture group. A dollar sign before any other character, or at the end, is literal.
\<close>

fun has_replacement_pattern :: "string \<Rightarrow> bool" where
  "has_replacement_pattern [] = False"
| "has_replacement_pattern [c] = False"
| "has_replacement_pattern (c # d # r) =
     ((c = CHR ''$'' \<and> d \<in> set [CHR ''$'', CHR ''&'', CHR 0x60, CHR 0x27])
      \<or> has_replacement_pattern (d # r))"

section \<open>Concrete session descriptions\<close>

text \<open>
  An offer with two ice-ufrag lines, one ice-pwd line and a final line feed; and a body
  whose only ice-ufrag line opens the text and whose only ice-pwd line is not ended by a
  line feed.
\<close>

definition offer_sdp :: string where
  "offer_sdp =
     ''v=0'' @ [LF] @ ''a=ice-ufrag:abcd'' @ [LF] @ ''a=ice-pwd:efgh'' @ [LF]
     @ ''a=ice-ufrag:second'' @ [LF]"

definition offer :: RTCSessionDescriptionInit where
  "offer = \<lparr>type = ''offer'', sdp = Some offer_sdp\<rparr>"

definition undelimited_sdp :: string where
  "undelimited_sdp = ''a=ice-ufrag:abcd'' @ [LF] @ ''v=0'' @ [LF] @ ''a=ice-pwd:efgh''"

definition undelimited :: RTCSessionDescriptionInit where
  "undelimited = \<lparr>type = ''offer'', sdp = Some undelimited_sdp\<rparr>"

text \<open>
  A body with two ice-ufrag lines and two ice-pwd lines, whose first ice-ufrag line
  opens the text and whose second ice-pwd line is not ended by a line feed; and a ufrag
  that carries a line feed.
\<close>

definition leading_sdp :: string where
  "leading_sdp =
     ''a=ice-ufrag:one'' @ [LF] @ ''v=0'' @ [LF] @ ''a=ice-ufrag:two'' @ [LF]
     @ ''a=ice-pwd:three'' @ [LF] @ ''a=ice-pwd:four''"

definition leading :: RTCSessionDescriptionInit where
  "leading = \<lparr>type = ''offer'', sdp = Some leading_sdp\<rparr>"

definition two_line_ufrag :: string where
  "two_line_ufrag = ''ab'' @ [LF] @ ''cd''"

section \<open>Hexadecimal rendering\<close>

lemma hex_digit_table:
  "\<forall>k \<in> set [0..<16]. \<not> line_terminator (hex_digit k)
     \<and> upper_char (hex_digit k) = HEX_digit k \<and> HEX_digit k \<noteq> LF"
  by code_simp

lemma hex_digit_props:
  "\<not> line_terminator (hex_digit n)" "upper_char (hex_digit n) = HEX_digit n" "HEX_digit n \<noteq> LF"
proof -
  have "n mod 16 \<in> set [0..<16]" by simp
  then have "\<not> line_terminator (hex_digit (n mod 16))
      \<and> upper_char (hex_digit (n mod 16)) = HEX_digit (n mod 16) \<and> HEX_digit (n mod 16) \<noteq> LF"
    using hex_digit_table by blast
  then show "\<not> line_terminator (hex_digit n)" "upper_char (hex_digit n) = HEX_digit n"
    "HEX_digit n \<noteq> LF"
    by (simp_all add: hex_digit_def HEX_digit_def)
qed

lemma match_pairs_all_hex: "match_pairs_all (concat (map byte_hex ds)) = map byte_hex ds"
  by (induction ds) (simp_all add: byte_hex_def hex_digit_props)

lemma match_pairs_hex:
  "match_pairs (concat (map byte_hex ds)) = (if ds = [] then None else Some (map byte_hex ds))"
  using match_pairs_all_hex [of ds] by (cases ds) (simp_all add: match_pairs_def)

lemma upper_colon: "upper_char CHR '':'' = CHR '':''"
  by code_simp

lemma toUpperCase_Cons: "toUpperCase (c # s) = upper_char c # toUpperCase s"
  by (simp add: toUpperCase_def)

lemma toUpperCase_append: "toUpperCase (a @ b) = toUpperCase a @ toUpperCase b"
  by (simp add: toUpperCase_def)

lemma toUpperCase_join: "toUpperCase (join '':'' xs) = join '':'' (map toUpperCase xs)"
  by (induction xs rule: induct_list012)
     (simp_all add: toUpperCase_append toUpperCase_Cons upper_colon, simp add: toUpperCase_def)

lemma toUpperCase_byte_hex: "toUpperCase (byte_hex b) = byte_HEX b"
  by (simp add: toUpperCase_def byte_hex_def byte_HEX_def hex_digit_props)

lemma upper_tags:
  "toUpperCase ''md5'' = ''MD5''"
  "toUpperCase ''sha-256'' = ''SHA-256''"
  "toUpperCase ''sha-512'' = ''SHA-512''"
  by code_simp+

section \<open>Fingerprint derivation\<close>

text \<open>
  Once the certhash value and the two decoders have produced a hash name and a digest,
  the outcome of \<open>certhashToFingerprint\<close> is decided by the switch and by the digest
  being empty or not (\<^verbatim>\<open>''.match(...)\<close> is \<^verbatim>\<open>null\<close>).
\<close>

lemma certhashToFingerprint_decoded:
  assumes "certhash ma = Inr c" and "mbdecoder_decode L c = Inr mh"
    and "multihashes_decode L mh = Inr mhd"
  shows "certhashToFingerprint L ma =
    (case hash_prefix (name mhd) of
       Inl e \<Rightarrow> Inl e
     | Inr pfx \<Rightarrow>
         (if digest mhd = [] then Inl TypeError
          else Inr (toUpperCase pfx @ '' '' @ join '':'' (map byte_HEX (digest mhd)),
                    concat (map byte_hex (digest mhd)))))"
  using assms
  by (simp add: certhashToFingerprint_def match_pairs_hex toUpperCase_join toUpperCase_byte_hex
      comp_def split: sum.split)

lemma mbdecode_test: "mbdecoder_decode reference_libs test_certhash = Inr fingerprint_A"
  by (simp add: reference_libs_def multibase_decode_def base64url_decode_def test_certhash_def
      base64url_value_def fingerprint_A_def)

lemma mbdecode_B: "mbdecoder_decode reference_libs certhash_B = Inr fingerprint_B"
  by (simp add: reference_libs_def multibase_decode_def base64url_decode_def
      certhash_B_def base64url_value_def fingerprint_B_def)

lemma certhash_addr2: "certhash addr2 = Inr test_certhash"
  by (simp add: certhash_def addr2_def CERTHASH_CODE_def test_certhash_def)

lemma certhash_addr_B: "certhash addr_B = Inr certhash_B"
  by (simp add: certhash_def addr_B_def CERTHASH_CODE_def certhash_B_def)

lemma certhash_addr_md5: "certhash addr_md5 = Inr md5_certhash"
  by (simp add: certhash_def addr_md5_def CERTHASH_CODE_def md5_certhash_def)

lemma mbdecode_md5:
  "mbdecoder_decode reference_libs md5_certhash = Inr ([0xd5, 0x01, 0x10] @ md5_digest)"
  by (simp add: reference_libs_def multibase_decode_def base64url_decode_def md5_certhash_def
      md5_digest_def base64url_value_def)

lemma mhdecode_md5:
  "multihashes_decode reference_libs ([0xd5, 0x01, 0x10] @ md5_digest)
     = Inr \<lparr>name = ''md5'', digest = md5_digest\<rparr>"
  by (simp add: reference_libs_def multihash_decode_def md5_digest_def hash_codes_def)

lemma md5_digest_HEX:
  "map byte_HEX md5_digest =
      [''DE'', ''AD'', ''BE'', ''EF'', ''00'', ''01'', ''02'', ''03'',
       ''04'', ''05'', ''06'', ''07'', ''08'', ''09'', ''0A'', ''0B'']"
  by code_simp

lemma md5_digest_hex: "concat (map byte_hex md5_digest) = ''deadbeef000102030405060708090a0b''"
  by code_simp

lemma md5_fingerprint:
  "certhashToFingerprint reference_libs addr_md5 =
     Inr (''MD5 DE:AD:BE:EF:00:01:02:03:04:05:06:07:08:09:0A:0B'',
          ''deadbeef000102030405060708090a0b'')"
proof -
  have "md5_digest \<noteq> []"
    by (simp add: md5_digest_def)
  then show ?thesis
    using certhashToFingerprint_decoded [OF certhash_addr_md5 mbdecode_md5 mhdecode_md5]
    by (simp add: hash_prefix_def upper_tags md5_digest_HEX md5_digest_hex)
qed

text \<open>
  C2, as stated, fails: the second component of the result is not the digest. For the
  md5 digest \<open>de ad be ef 00 .. 0b\<close> it is the 32-character text
  \<^verbatim>\<open>deadbeef000102030405060708090a0b\<close>, whose bytes are not the 16 digest bytes.
\<close>

theorem fingerprint_raw_bytes_counterexample:
  "certhashToFingerprint reference_libs addr_md5 =
     Inr (''MD5 DE:AD:BE:EF:00:01:02:03:04:05:06:07:08:09:0A:0B'',
          ''deadbeef000102030405060708090a0b'')
   \<and> uint8arrayFromString ''deadbeef000102030405060708090a0b'' \<noteq> md5_digest"
  by (simp add: md5_fingerprint uint8arrayFromString_def md5_digest_def)

text \<open>
  C2, amended. For a supported algorithm \<open>A\<close> and a non-empty digest \<open>D\<close>, when the
  certhash value of the address decodes (multibase, then multihash) to \<open>A\<close>'s name and
  \<open>D\<close>, the derivation returns the display string of \<open>A\<close> and \<open>D\<close>, together with
  \<open>D\<close> as lowercase hexadecimal text, two digits per byte, without separators.
\<close>

theorem fingerprint_round_trip:
  assumes "certhash ma = Inr c" and "mbdecoder_decode L c = Inr mh"
    and "multihashes_decode L mh = Inr \<lparr>name = multihash_name A, digest = D\<rparr>"
    and "D \<noteq> []"
  shows "certhashToFingerprint L ma =
    Inr (fingerprint_display A D, concat (map byte_hex D))"
  using certhashToFingerprint_decoded [OF assms(1-3)] assms(4)
  by (cases A) (simp_all add: hash_prefix_def upper_tags fingerprint_display_def)

theorem fingerprint_round_trip_witness:
  "certhashToFingerprint reference_libs addr_md5 =
     Inr (fingerprint_display MD5 md5_digest, concat (map byte_hex md5_digest))"
proof -
  have "multihashes_decode reference_libs ([0xd5, 0x01, 0x10] @ md5_digest)
      = Inr \<lparr>name = multihash_name MD5, digest = md5_digest\<rparr>"
    using mhdecode_md5 by simp
  moreover have "md5_digest \<noteq> []"
    by (simp add: md5_digest_def)
  ultimately show ?thesis
    using fingerprint_round_trip [OF certhash_addr_md5 mbdecode_md5] by blast
qed

text \<open>
  C5. When the decoded hash name is none of \<^verbatim>\<open>md5\<close>, \<^verbatim>\<open>sha2-256\<close>, \<^verbatim>\<open>sha2-512\<close>, the
  derivation fails with the unsupported-algorithm error carrying that name, so nothing
  is returned. For the three names the tag of the display string is \<^verbatim>\<open>MD5\<close>,
  \<^verbatim>\<open>SHA-256\<close>, \<^verbatim>\<open>SHA-512\<close>; an empty digest produces no display string at all.
\<close>

theorem unsupported_algorithm_rejected:
  assumes "certhash ma = Inr c" and "mbdecoder_decode L c = Inr mh"
    and "multihashes_decode L mh = Inr mhd"
  shows "(name mhd \<notin> {''md5'', ''sha2-256'', ''sha2-512''} \<longrightarrow>
            certhashToFingerprint L ma = Inl (UnsupportedHashAlgorithm (name mhd)))
    \<and> (name mhd = ''md5'' \<longrightarrow> certhashToFingerprint L ma =
          (if digest mhd = [] then Inl TypeError
           else Inr (''MD5'' @ '' '' @ join '':'' (map byte_HEX (digest mhd)),
                     concat (map byte_hex (digest mhd)))))
    \<and> (name mhd = ''sha2-256'' \<longrightarrow> certhashToFingerprint L ma =
          (if digest mhd = [] then Inl TypeError
           else Inr (''SHA-256'' @ '' '' @ join '':'' (map byte_HEX (digest mhd)),
                     concat (map byte_hex (digest mhd)))))
    \<and> (name mhd = ''sha2-512'' \<longrightarrow> certhashToFingerprint L ma =
          (if digest mhd = [] then Inl TypeError
           else Inr (''SHA-512'' @ '' '' @ join '':'' (map byte_HEX (digest mhd)),
                     concat (map byte_hex (digest mhd)))))"
  using certhashToFingerprint_decoded [OF assms]
  by (simp add: hash_prefix_def upper_tags)

theorem unsupported_algorithm_rejected_witness:
  "certhashToFingerprint reference_libs addr_sha1 = Inl (UnsupportedHashAlgorithm ''sha1'')
   \<and> certhashToFingerprint reference_libs addr_md5 =
       Inr (''MD5 DE:AD:BE:EF:00:01:02:03:04:05:06:07:08:09:0A:0B'',
            ''deadbeef000102030405060708090a0b'')"
proof
  have c: "certhash addr_sha1 = Inr sha1_certhash"
    by (simp add: certhash_def addr_sha1_def CERTHASH_CODE_def sha1_certhash_def)
  have b: "mbdecoder_decode reference_libs sha1_certhash =
      Inr [0x11, 0x14, 0x0f, 0x1e, 0x2d, 0x3c, 0x4b, 0x5a, 0x69, 0x78, 0x87, 0x96, 0xa5, 0xb4,
           0xc3, 0xd2, 0xe1, 0xf0, 0x01, 0x12, 0x23, 0x34]"
    by (simp add: reference_libs_def multibase_decode_def base64url_decode_def
        sha1_certhash_def base64url_value_def)
  have h: "multihashes_decode reference_libs
      [0x11, 0x14, 0x0f, 0x1e, 0x2d, 0x3c, 0x4b, 0x5a, 0x69, 0x78, 0x87, 0x96, 0xa5, 0xb4,
       0xc3, 0xd2, 0xe1, 0xf0, 0x01, 0x12, 0x23, 0x34]
      = Inr \<lparr>name = ''sha1'', digest = [0x0f, 0x1e, 0x2d, 0x3c, 0x4b, 0x5a, 0x69, 0x78, 0x87,
           0x96, 0xa5, 0xb4, 0xc3, 0xd2, 0xe1, 0xf0, 0x01, 0x12, 0x23, 0x34]\<rparr>"
    by (simp add: reference_libs_def multihash_decode_def hash_codes_def)
  show "certhashToFingerprint reference_libs addr_sha1 = Inl (UnsupportedHashAlgorithm ''sha1'')"
    using unsupported_algorithm_rejected [OF c b h] by simp
next
  have "md5_digest \<noteq> []"
    by (simp add: md5_digest_def)
  then show "certhashToFingerprint reference_libs addr_md5 =
       Inr (''MD5 DE:AD:BE:EF:00:01:02:03:04:05:06:07:08:09:0A:0B'',
            ''deadbeef000102030405060708090a0b'')"
    using unsupported_algorithm_rejected [OF certhash_addr_md5 mbdecode_md5 mhdecode_md5]
    by (simp add: md5_digest_HEX md5_digest_hex)
qed

section \<open>The certificate-hash tuple\<close>

text \<open>
  C6. An address without a certhash tuple makes \<open>certhash\<close> fail with the
  inappropriate-address error. When the first certhash tuple carries an encoded value
  (a multibase text, which is never empty: it starts with its base prefix), \<open>certhash\<close>
  returns exactly that value; this covers the address with exactly one such tuple and
  the first match of an address with several.
\<close>

theorem certhash_tuple:
  "(CERTHASH_CODE \<notin> fst ` set (stringTuples ma) \<longrightarrow>
      certhash ma = Inl (InappropriateMultiaddr
        (''Couldn't find a certhash component of multiaddr:'' @ toString ma)))
   \<and> (\<forall>pre v post.
        stringTuples ma = pre @ (CERTHASH_CODE, Some v) # post
        \<and> CERTHASH_CODE \<notin> fst ` set pre \<and> v \<noteq> [] \<longrightarrow> certhash ma = Inr v)"
proof (intro conjI impI allI)
  assume "CERTHASH_CODE \<notin> fst ` set (stringTuples ma)"
  then have "filter (\<lambda>tup. fst tup = CERTHASH_CODE) (stringTuples ma) = []"
    by (force simp: filter_empty_conv)
  then show "certhash ma = Inl (InappropriateMultiaddr
      (''Couldn't find a certhash component of multiaddr:'' @ toString ma))"
    by (simp add: certhash_def certhash_error_def)
next
  fix pre v post
  assume h: "stringTuples ma = pre @ (CERTHASH_CODE, Some v) # post
    \<and> CERTHASH_CODE \<notin> fst ` set pre \<and> v \<noteq> []"
  then have "filter (\<lambda>tup. fst tup = CERTHASH_CODE) pre = []"
    by (force simp: filter_empty_conv)
  with h show "certhash ma = Inr v"
    by (simp add: certhash_def)
qed

theorem certhash_tuple_witness:
  "certhash addr3 = Inl (InappropriateMultiaddr
     (''Couldn't find a certhash component of multiaddr:'' @ toString addr3))
   \<and> certhash addr2 = Inr test_certhash"
proof
  have "CERTHASH_CODE \<notin> fst ` set (stringTuples addr3)"
    by (simp add: addr3_def CERTHASH_CODE_def)
  with certhash_tuple [of addr3]
  show "certhash addr3 = Inl (InappropriateMultiaddr
     (''Couldn't find a certhash component of multiaddr:'' @ toString addr3))"
    by blast
next
  have "stringTuples addr2 =
      [(4, Some ''1.2.3.4''), (273, Some ''1234''), (280, None)]
      @ (CERTHASH_CODE, Some test_certhash) # [(421, Some test_peer)]
    \<and> CERTHASH_CODE \<notin> fst ` set [(4, Some ''1.2.3.4''), (273, Some ''1234''), (280, None)]
    \<and> test_certhash \<noteq> []"
    by (simp add: addr2_def CERTHASH_CODE_def test_certhash_def)
  with certhash_tuple [of addr2]
  show "certhash addr2 = Inr test_certhash"
    by blast
qed

section \<open>The address filter\<close>

text \<open>
  C7. \<open>filter\<close> keeps, in order, exactly the addresses whose protocol codes contain
  280 (webrtc) and 466 (certhash) and whose peer id is present; of the four test
  addresses it keeps the second only.
\<close>

theorem filter_keeps_dialable:
  "filter_ma mas =
     filter (\<lambda>ma. 280 \<in> set (protoCodes ma) \<and> 466 \<in> set (protoCodes ma)
                  \<and> getPeerId ma \<noteq> None) mas
   \<and> filter_ma [addr1, addr2, addr3, addr4] = [addr2]"
  by (simp add: filter_ma_def validMa_def [abs_def] WEBRTC_CODE_def CERTHASH_CODE_def
      addr1_def addr2_def addr3_def addr4_def)

section \<open>Munging a description without body\<close>

text \<open>
  C9. When the description has no SDP body (the member is absent, or it is the empty
  text), \<open>munge\<close> throws the invalid-argument error and leaves the description as it
  was.
\<close>

theorem munge_missing_sdp:
  "sdp desc = None \<or> sdp desc = Some [] \<Longrightarrow>
     munge desc ufrag = (desc, Inl (InvalidArgument ''Can't munge a missing SDP''))"
  by (auto simp add: munge_def)

theorem munge_missing_sdp_witness:
  "sdp \<lparr>type = ''offer'', sdp = None\<rparr> = None
   \<and> munge \<lparr>type = ''offer'', sdp = None\<rparr> ''abc''
       = (\<lparr>type = ''offer'', sdp = None\<rparr>, Inl (InvalidArgument ''Can't munge a missing SDP''))"
  using munge_missing_sdp [of "\<lparr>type = ''offer'', sdp = None\<rparr>" "''abc''"] by simp

section \<open>Lines\<close>

lemma join_LF: "join [LF] (x # xs) = x @ concat (map ((#) LF) xs)"
  by (induction xs arbitrary: x) simp_all

lemma split_lines_not_Nil: "split_lines s \<noteq> []"
  by (induction s) (auto split: list.split)

lemma split_lines_LF_free: "l \<in> set (split_lines s) \<Longrightarrow> LF \<notin> set l"
  by (induction s arbitrary: l) (auto split: list.splits if_splits)

lemma join_split_lines: "join [LF] (split_lines s) = s"
proof (induction s)
  case Nil
  show ?case by simp
next
  case (Cons c s)
  obtain l ls where ls: "split_lines s = l # ls"
    using split_lines_not_Nil [of s] by (cases "split_lines s") auto
  with Cons show ?case
    by (simp add: join_LF)
qed

lemma split_lines_single: "LF \<notin> set l \<Longrightarrow> split_lines l = [l]"
  by (induction l) auto

lemma split_lines_line: "LF \<notin> set l \<Longrightarrow> split_lines (l @ LF # rest) = l # split_lines rest"
  by (induction l) auto

lemma split_join_lines:
  "ls \<noteq> [] \<Longrightarrow> \<forall>l \<in> set ls. LF \<notin> set l \<Longrightarrow> split_lines (join [LF] ls) = ls"
proof (induction ls rule: induct_list012)
  case 1
  then show ?case by simp
next
  case (2 x)
  then show ?case by (simp add: split_lines_single)
next
  case (3 x y zs)
  then show ?case by (simp add: split_lines_line)
qed

section \<open>Munging the ICE credentials\<close>

lemma match_here_not_LF: "c \<noteq> LF \<Longrightarrow> match_here key (c # cs) = None"
  by (simp add: match_here_def)

lemma regex_exec_skip:
  "LF \<notin> set l \<Longrightarrow> regex_exec key pre (l @ t) = regex_exec key (pre @ l) t"
  by (induction l arbitrary: pre) (auto simp: match_here_def)

lemma takeWhile_line: "LF \<notin> set l \<Longrightarrow> takeWhile (\<lambda>c. c \<noteq> LF) (l @ LF # rest) = l"
  by (induction l) auto

lemma dropWhile_line: "LF \<notin> set l \<Longrightarrow> dropWhile (\<lambda>c. c \<noteq> LF) (l @ LF # rest) = LF # rest"
  by (induction l) auto

lemma dropWhile_last: "LF \<notin> set l \<Longrightarrow> dropWhile (\<lambda>c. c \<noteq> LF) l = []"
  by (induction l) auto

lemma prefix_line:
  assumes "LF \<notin> set key" and "LF \<notin> set l"
  shows "prefix key (l @ LF # rest) \<longleftrightarrow> prefix key l"
proof
  assume "prefix key (l @ LF # rest)"
  then have "prefix key l \<or> (\<exists>us. key = l @ us \<and> prefix us (LF # rest))"
    by (simp add: prefix_append)
  then show "prefix key l"
  proof
    assume "prefix key l" then show ?thesis .
  next
    assume "\<exists>us. key = l @ us \<and> prefix us (LF # rest)"
    then obtain us where us: "key = l @ us" "prefix us (LF # rest)" by blast
    show ?thesis
    proof (cases us)
      case Nil
      with us show ?thesis by simp
    next
      case (Cons u us')
      with us have "u = LF" by simp
      with Cons us assms show ?thesis by simp
    qed
  qed
next
  assume "prefix key l" then show "prefix key (l @ LF # rest)" by (simp add: prefix_append)
qed

lemma match_here_line:
  assumes "LF \<notin> set key" and "LF \<notin> set l"
  shows "match_here key (LF # l @ LF # rest) =
           (if prefix key l then Some (LF # l @ [LF], rest) else None)"
proof (cases "prefix key l")
  case True
  then obtain content where l: "l = key @ content" by (auto simp: prefix_def)
  with assms have c: "LF \<notin> set content" by simp
  show ?thesis
    using True l c by (simp add: match_here_def takeWhile_line dropWhile_line)
next
  case False
  then show ?thesis
    using prefix_line [OF assms, of rest] by (simp add: match_here_def)
qed

lemma match_here_last:
  assumes "LF \<notin> set l"
  shows "match_here key (LF # l) = None"
proof -
  have "LF \<notin> set (drop (length key) l)"
    using assms by (meson in_set_dropD)
  then show ?thesis
    by (simp add: match_here_def dropWhile_last)
qed

lemma getSubstitution_inert:
  "\<not> has_replacement_pattern r \<Longrightarrow> getSubstitution m b a r = r"
  by (induction r rule: has_replacement_pattern.induct) auto

lemma pattern_after_key:
  "CHR ''$'' \<notin> set k \<Longrightarrow> has_replacement_pattern (k @ r) = has_replacement_pattern r"
proof (induction k)
  case Nil
  show ?case by simp
next
  case (Cons c k)
  then show ?case by (cases "k @ r") auto
qed

lemma pattern_before_LF:
  "has_replacement_pattern (u @ [LF]) = has_replacement_pattern u"
  by (induction u rule: has_replacement_pattern.induct) (auto simp: LF_def)

lemma replacement_inert:
  assumes "CHR ''$'' \<notin> set key" and "\<not> has_replacement_pattern u"
  shows "getSubstitution m b a (LF # key @ u @ [LF]) = LF # key @ u @ [LF]"
proof -
  have "CHR ''$'' \<notin> set (LF # key)"
    using assms(1) by (simp add: LF_def)
  then have "has_replacement_pattern ((LF # key) @ (u @ [LF]))
      = has_replacement_pattern (u @ [LF])"
    by (rule pattern_after_key)
  then have "\<not> has_replacement_pattern ((LF # key) @ (u @ [LF]))"
    using assms(2) by (simp add: pattern_before_LF)
  then have "getSubstitution m b a ((LF # key) @ (u @ [LF])) = (LF # key) @ (u @ [LF])"
    by (rule getSubstitution_inert)
  then show ?thesis
    by simp
qed

lemma replace_tail:
  assumes "LF \<notin> set key" and "\<forall>l \<in> set rest. LF \<notin> set l"
  shows "(case regex_exec key pre (concat (map ((#) LF) rest)) of
            None \<Rightarrow> pre @ concat (map ((#) LF) rest)
          | Some (b, m, a) \<Rightarrow> b @ (LF # key @ u @ [LF]) @ a)
         = pre @ concat (map ((#) LF) (rewrite_terminated key u rest))"
  using assms
proof (induction key u rest arbitrary: pre rule: rewrite_terminated.induct)
  case (1 key u)
  then show ?case by simp
next
  case (2 key u l)
  then have "regex_exec key pre (LF # l) = None"
    using regex_exec_skip [of l key "pre @ [LF]" "[]"] by (simp add: match_here_last)
  then show ?case by simp
next
  case (3 key u l l' ls)
  let ?rest = "l' @ concat (map ((#) LF) ls)"
  have m: "match_here key (LF # l @ LF # ?rest) =
      (if prefix key l then Some (LF # l @ [LF], ?rest) else None)"
    using 3 by (simp add: match_here_line)
  show ?case
  proof (cases "prefix key l")
    case True
    then show ?thesis using m by simp
  next
    case False
    then have "regex_exec key pre (LF # l @ LF # ?rest)
        = regex_exec key (pre @ LF # l) (LF # ?rest)"
      using m 3 regex_exec_skip [of l key "pre @ [LF]" "LF # ?rest"] by simp
    moreover have "(case regex_exec key (pre @ LF # l) (concat (map ((#) LF) (l' # ls))) of
            None \<Rightarrow> (pre @ LF # l) @ concat (map ((#) LF) (l' # ls))
          | Some (b, m, a) \<Rightarrow> b @ (LF # key @ u @ [LF]) @ a)
         = (pre @ LF # l) @ concat (map ((#) LF) (rewrite_terminated key u (l' # ls)))"
      using 3 False by simp
    ultimately show ?thesis using False
      by (simp del: regex_exec.simps cong: option.case_cong)
  qed
qed

lemma no_match_tail:
  assumes "LF \<notin> set key" and "\<forall>l \<in> set rest. LF \<notin> set l"
    and "\<forall>l \<in> set (butlast rest). \<not> prefix key l"
  shows "regex_exec key pre (concat (map ((#) LF) rest)) = None"
  using assms
proof (induction rest arbitrary: pre rule: induct_list012)
  case 1
  then show ?case by simp
next
  case (2 l)
  then show ?case
    using regex_exec_skip [of l key "pre @ [LF]" "[]"] by (simp add: match_here_last)
next
  case (3 l l' ls)
  let ?rest = "l' @ concat (map ((#) LF) ls)"
  have "match_here key (LF # l @ LF # ?rest) = None"
    using 3 by (simp add: match_here_line)
  then have "regex_exec key pre (LF # l @ LF # ?rest)
      = regex_exec key (pre @ LF # l) (LF # ?rest)"
    using 3 regex_exec_skip [of l key "pre @ [LF]" "LF # ?rest"] by simp
  moreover have "regex_exec key (pre @ LF # l) (concat (map ((#) LF) (l' # ls))) = None"
    using 3 by simp
  ultimately show ?case by (simp del: regex_exec.simps)
qed

lemma replace_first_lines:
  assumes "LF \<notin> set key" and "CHR ''$'' \<notin> set key" and "\<not> has_replacement_pattern u"
  shows "replace_first key (LF # key @ u @ [LF]) s
           = join [LF] (rewrite_first_line key u (split_lines s))"
proof -
  obtain first rest where fr: "split_lines s = first # rest"
    using split_lines_not_Nil [of s] by (cases "split_lines s") auto
  have free: "LF \<notin> set first" "\<forall>l \<in> set rest. LF \<notin> set l"
    using split_lines_LF_free [of _ s] fr by auto
  have s: "s = first @ concat (map ((#) LF) rest)"
    using join_split_lines [of s] fr by (simp add: join_LF)
  have e: "regex_exec key [] s = regex_exec key first (concat (map ((#) LF) rest))"
    using regex_exec_skip [of first key "[]"] free s by simp
  have inert: "getSubstitution m b a (LF # key @ u @ [LF]) = LF # key @ u @ [LF]" for m b a
    using replacement_inert [OF assms(2,3)] .
  have "replace_first key (LF # key @ u @ [LF]) s =
      (case regex_exec key first (concat (map ((#) LF) rest)) of
            None \<Rightarrow> s
          | Some (b, m, a) \<Rightarrow> b @ (LF # key @ u @ [LF]) @ a)"
    by (simp add: replace_first_def e inert split: option.split)
  also have "\<dots> =
      (case regex_exec key first (concat (map ((#) LF) rest)) of
            None \<Rightarrow> first @ concat (map ((#) LF) rest)
          | Some (b, m, a) \<Rightarrow> b @ (LF # key @ u @ [LF]) @ a)"
    using s by (simp cong: option.case_cong)
  also have "\<dots> = first @ concat (map ((#) LF) (rewrite_terminated key u rest))"
    using replace_tail [OF assms(1) free(2)] by simp
  finally show ?thesis
    by (simp add: fr rewrite_first_line_def join_LF)
qed

lemma replace_first_no_match:
  assumes "LF \<notin> set key" and "\<forall>l \<in> set (delimited_lines s). \<not> prefix key l"
  shows "replace_first key r s = s"
proof -
  obtain first rest where fr: "split_lines s = first # rest"
    using split_lines_not_Nil [of s] by (cases "split_lines s") auto
  have free: "LF \<notin> set first" "\<forall>l \<in> set rest. LF \<notin> set l"
    using split_lines_LF_free [of _ s] fr by auto
  have s: "s = first @ concat (map ((#) LF) rest)"
    using join_split_lines [of s] fr by (simp add: join_LF)
  have e: "regex_exec key [] s = regex_exec key first (concat (map ((#) LF) rest))"
    using regex_exec_skip [of first key "[]"] free s by simp
  have "\<forall>l \<in> set (butlast rest). \<not> prefix key l"
    using assms(2) fr by (simp add: delimited_lines_def)
  then have "regex_exec key [] s = None"
    using no_match_tail [OF assms(1) free(2)] e by simp
  then show ?thesis
    by (simp add: replace_first_def)
qed


lemma rewrite_terminated_Cons:
  "xs \<noteq> [] \<Longrightarrow> rewrite_terminated key u (l # xs) =
     (if prefix key l then (key @ u) # xs else l # rewrite_terminated key u xs)"
  by (cases xs) simp_all

lemma rewrite_terminated_length: "length (rewrite_terminated key u ls) = length ls"
  by (induction key u ls rule: rewrite_terminated.induct) simp_all

lemma rewrite_terminated_Nil: "rewrite_terminated key u ls = [] \<longleftrightarrow> ls = []"
  using rewrite_terminated_length [of key u ls] by (metis length_0_conv)

lemma rewrite_terminated_LF_free:
  "LF \<notin> set key \<Longrightarrow> LF \<notin> set u \<Longrightarrow> \<forall>l \<in> set ls. LF \<notin> set l \<Longrightarrow>
     \<forall>l \<in> set (rewrite_terminated key u ls). LF \<notin> set l"
  by (induction key u ls rule: rewrite_terminated.induct) auto

lemma rewrite_terminated_idem:
  "rewrite_terminated key u (rewrite_terminated key u ls) = rewrite_terminated key u ls"
  by (induction key u ls rule: rewrite_terminated.induct)
     (simp_all add: rewrite_terminated_Cons rewrite_terminated_Nil)

lemma rewrite_terminated_commute:
  assumes "\<And>l. \<not> (prefix k1 l \<and> prefix k2 l)"
  shows "rewrite_terminated k1 u (rewrite_terminated k2 v ls)
           = rewrite_terminated k2 v (rewrite_terminated k1 u ls)"
proof (induction ls rule: induct_list012)
  case 1
  show ?case by simp
next
  case (2 l)
  show ?case by simp
next
  case (3 l l' ls)
  have a: "\<not> prefix k2 (k1 @ u)" and b: "\<not> prefix k1 (k2 @ v)"
    using assms [of "k1 @ u"] assms [of "k2 @ v"] by simp_all
  show ?case
    using 3 assms [of l] a b
    by (simp add: rewrite_terminated_Cons rewrite_terminated_Nil)
qed

lemma rewrite_first_line_idem:
  "rewrite_first_line key u (rewrite_first_line key u ls) = rewrite_first_line key u ls"
  by (cases ls) (simp_all add: rewrite_first_line_def rewrite_terminated_idem)

lemma rewrite_first_line_commute:
  assumes "\<And>l. \<not> (prefix k1 l \<and> prefix k2 l)"
  shows "rewrite_first_line k1 u (rewrite_first_line k2 v ls)
           = rewrite_first_line k2 v (rewrite_first_line k1 u ls)"
  using rewrite_terminated_commute [OF assms]
  by (cases ls) (simp_all add: rewrite_first_line_def)

lemma rewrite_first_line_LF_free:
  "LF \<notin> set key \<Longrightarrow> LF \<notin> set u \<Longrightarrow> \<forall>l \<in> set ls. LF \<notin> set l \<Longrightarrow>
     \<forall>l \<in> set (rewrite_first_line key u ls). LF \<notin> set l"
  using rewrite_terminated_LF_free [of key u "tl ls"]
  by (cases ls) (simp_all add: rewrite_first_line_def)

lemma rewrite_first_line_Nil: "rewrite_first_line key u ls = [] \<longleftrightarrow> ls = []"
  by (cases ls) (simp_all add: rewrite_first_line_def)

lemma rewrite_first_line_empty_text:
  "rewrite_first_line key u ls = [[]] \<longleftrightarrow> ls = [[]]"
  by (cases ls) (auto simp: rewrite_first_line_def rewrite_terminated_Nil)

lemma key_facts:
  "LF \<notin> set ufrag_key" "LF \<notin> set pwd_key"
  "CHR ''$'' \<notin> set ufrag_key" "CHR ''$'' \<notin> set pwd_key"
  "\<not> (prefix ufrag_key l \<and> prefix pwd_key l)"
  by (auto simp: ufrag_key_def pwd_key_def LF_def prefix_def)

lemma split_lines_munge_sdp:
  assumes "LF \<notin> set u" and "\<not> has_replacement_pattern u"
  shows "split_lines (munge_sdp u s)
           = rewrite_first_line pwd_key u (rewrite_first_line ufrag_key u (split_lines s))"
proof -
  let ?L1 = "rewrite_first_line ufrag_key u (split_lines s)"
  have free1: "\<forall>l \<in> set ?L1. LF \<notin> set l"
    using rewrite_first_line_LF_free [OF key_facts(1) assms(1)] split_lines_LF_free by blast
  have ne1: "?L1 \<noteq> []"
    by (simp add: rewrite_first_line_Nil split_lines_not_Nil)
  have s1: "split_lines (join [LF] ?L1) = ?L1"
    using split_join_lines [OF ne1 free1] .
  let ?L2 = "rewrite_first_line pwd_key u ?L1"
  have free2: "\<forall>l \<in> set ?L2. LF \<notin> set l"
    using rewrite_first_line_LF_free [OF key_facts(2) assms(1) free1] .
  have ne2: "?L2 \<noteq> []"
    by (simp add: rewrite_first_line_Nil split_lines_not_Nil)
  have "munge_sdp u s = join [LF] ?L2"
    using assms
    by (simp add: munge_sdp_def replace_first_lines key_facts s1)
  then show ?thesis
    using split_join_lines [OF ne2 free2] by simp
qed

lemma split_lines_inject: "split_lines a = split_lines b \<Longrightarrow> a = b"
  by (metis join_split_lines)

lemma munge_sdp_idem:
  assumes "LF \<notin> set u" and "\<not> has_replacement_pattern u"
  shows "munge_sdp u (munge_sdp u s) = munge_sdp u s"
proof (rule split_lines_inject)
  let ?U = "rewrite_first_line ufrag_key u" and ?P = "rewrite_first_line pwd_key u"
  have c: "?U (?P ls) = ?P (?U ls)" for ls
    using rewrite_first_line_commute [of ufrag_key pwd_key u u ls] key_facts(5) by blast
  have "split_lines (munge_sdp u (munge_sdp u s)) = ?P (?U (?P (?U (split_lines s))))"
    by (simp add: split_lines_munge_sdp assms)
  also have "\<dots> = ?P (?P (?U (?U (split_lines s))))"
    by (simp add: c)
  also have "\<dots> = ?P (?U (split_lines s))"
    by (simp add: rewrite_first_line_idem)
  finally show "split_lines (munge_sdp u (munge_sdp u s)) = split_lines (munge_sdp u s)"
    by (simp add: split_lines_munge_sdp assms)
qed

lemma munge_sdp_not_empty:
  assumes "LF \<notin> set u" and "\<not> has_replacement_pattern u" and "s \<noteq> []"
  shows "munge_sdp u s \<noteq> []"
proof
  assume "munge_sdp u s = []"
  then have "split_lines (munge_sdp u s) = [[]]" by simp
  then have "split_lines s = [[]]"
    by (simp add: split_lines_munge_sdp assms rewrite_first_line_empty_text)
  then have "s = []"
    using join_split_lines [of s] by simp
  with assms show False by simp
qed

text \<open>
  A ufrag that carries a replacement pattern is not inserted as it is: \<^verbatim>\<open>replace\<close>
  expands the pattern. \<open>munge\<close> builds the replacement text by concatenation and does
  not escape the dollar sign, so what it inserts is not the ufrag it was given. With the
  ufrag \<^verbatim>\<open>$&\<close> the ice-ufrag line and the ice-pwd line are emptied, two segments are added
  after each, and a second application changes the text again.
\<close>

lemma munge_dollar_expansion:
  "munge offer ''$&'' =
     (\<lparr>type = ''offer'', sdp = Some (join [LF]
         [''v=0'', ''a=ice-ufrag:'', ''a=ice-ufrag:abcd'', [], ''a=ice-pwd:'',
          ''a=ice-pwd:efgh'', [], ''a=ice-ufrag:second'', []])\<rparr>,
      Inr \<lparr>type = ''offer'', sdp = Some (join [LF]
         [''v=0'', ''a=ice-ufrag:'', ''a=ice-ufrag:abcd'', [], ''a=ice-pwd:'',
          ''a=ice-pwd:efgh'', [], ''a=ice-ufrag:second'', []])\<rparr>)
   \<and> fst (munge (fst (munge offer ''$&'')) ''$&'') \<noteq> fst (munge offer ''$&'')"
  by code_simp

text \<open>
  C4, as stated, fails in two ways that follow from the two expressions and from the
  concatenation. Both expressions start and end with a line feed: in a body whose first
  ice-ufrag line opens the text, that line is left as it is and the second ice-ufrag
  line is rewritten (the last segment, here the second ice-pwd line, is out of reach in
  the same way). And a ufrag that carries a line feed is inserted with it: the line
  after the feed stays in the text, so each application adds a segment after the
  ice-ufrag line and after the ice-pwd line, and the second application does not leave
  the text as the first one made it.
\<close>

theorem munge_first_line_counterexample:
  "split_lines leading_sdp =
     [''a=ice-ufrag:one'', ''v=0'', ''a=ice-ufrag:two'', ''a=ice-pwd:three'', ''a=ice-pwd:four'']
   \<and> munge leading ''0123abcd'' =
     (\<lparr>type = ''offer'', sdp = Some (join [LF]
         [''a=ice-ufrag:one'', ''v=0'', ''a=ice-ufrag:0123abcd'', ''a=ice-pwd:0123abcd'',
          ''a=ice-pwd:four''])\<rparr>,
      Inr \<lparr>type = ''offer'', sdp = Some (join [LF]
         [''a=ice-ufrag:one'', ''v=0'', ''a=ice-ufrag:0123abcd'', ''a=ice-pwd:0123abcd'',
          ''a=ice-pwd:four''])\<rparr>)
   \<and> split_lines (munge_sdp two_line_ufrag offer_sdp) =
     [''v=0'', ''a=ice-ufrag:ab'', ''cd'', ''a=ice-pwd:ab'', ''cd'', ''a=ice-ufrag:second'', []]
   \<and> split_lines (munge_sdp two_line_ufrag (munge_sdp two_line_ufrag offer_sdp)) =
     [''v=0'', ''a=ice-ufrag:ab'', ''cd'', ''cd'', ''a=ice-pwd:ab'', ''cd'', ''cd'',
      ''a=ice-ufrag:second'', []]"
  by code_simp

text \<open>
  C4, amended. Let the description have a non-empty body and let the ufrag contain no
  line feed and no replacement pattern (a dollar sign followed by a dollar sign, an
  ampersand, a backtick or an apostrophe; any other dollar sign is allowed). Then
  \<open>munge\<close> returns the description with its body munged, and the segments of the
  munged body are those of the body with the first newline-delimited line that starts
  with \<^verbatim>\<open>a=ice-ufrag:\<close> rewritten to \<^verbatim>\<open>a=ice-ufrag:\<close> followed by the ufrag, the first
  newline-delimited line that starts with \<^verbatim>\<open>a=ice-pwd:\<close> rewritten likewise, and every
  other segment as it was. Munging the result again with the same ufrag returns it
  unchanged. Nothing is stated about a ufrag that carries a replacement pattern.
\<close>

theorem munge_first_occurrence:
  assumes "sdp desc = Some s" and "s \<noteq> []"
    and "LF \<notin> set ufrag" and "\<not> has_replacement_pattern ufrag"
  shows "munge desc ufrag = (desc\<lparr>sdp := Some (munge_sdp ufrag s)\<rparr>,
                             Inr (desc\<lparr>sdp := Some (munge_sdp ufrag s)\<rparr>))
    \<and> split_lines (munge_sdp ufrag s) =
        rewrite_first_line ''a=ice-pwd:'' ufrag
          (rewrite_first_line ''a=ice-ufrag:'' ufrag (split_lines s))
    \<and> munge (desc\<lparr>sdp := Some (munge_sdp ufrag s)\<rparr>) ufrag =
        (desc\<lparr>sdp := Some (munge_sdp ufrag s)\<rparr>,
         Inr (desc\<lparr>sdp := Some (munge_sdp ufrag s)\<rparr>))"
proof (intro conjI)
  show "munge desc ufrag = (desc\<lparr>sdp := Some (munge_sdp ufrag s)\<rparr>,
                             Inr (desc\<lparr>sdp := Some (munge_sdp ufrag s)\<rparr>))"
    using assms(1,2) by (simp add: munge_def Let_def)
  show "split_lines (munge_sdp ufrag s) =
        rewrite_first_line ''a=ice-pwd:'' ufrag
          (rewrite_first_line ''a=ice-ufrag:'' ufrag (split_lines s))"
    using split_lines_munge_sdp [OF assms(3,4)] by (simp add: ufrag_key_def pwd_key_def)
  show "munge (desc\<lparr>sdp := Some (munge_sdp ufrag s)\<rparr>) ufrag =
        (desc\<lparr>sdp := Some (munge_sdp ufrag s)\<rparr>,
         Inr (desc\<lparr>sdp := Some (munge_sdp ufrag s)\<rparr>))"
    using munge_sdp_not_empty [OF assms(3,4,2)] munge_sdp_idem [OF assms(3,4)]
    by (simp add: munge_def Let_def)
qed

theorem munge_first_occurrence_witness:
  "munge offer ''a$1b$'' =
     (offer\<lparr>sdp := Some (munge_sdp ''a$1b$'' offer_sdp)\<rparr>,
      Inr (offer\<lparr>sdp := Some (munge_sdp ''a$1b$'' offer_sdp)\<rparr>))
   \<and> split_lines (munge_sdp ''a$1b$'' offer_sdp) =
       [''v=0'', ''a=ice-ufrag:a$1b$'', ''a=ice-pwd:a$1b$'', ''a=ice-ufrag:second'', []]
   \<and> munge (offer\<lparr>sdp := Some (munge_sdp ''a$1b$'' offer_sdp)\<rparr>) ''a$1b$'' =
       (offer\<lparr>sdp := Some (munge_sdp ''a$1b$'' offer_sdp)\<rparr>,
        Inr (offer\<lparr>sdp := Some (munge_sdp ''a$1b$'' offer_sdp)\<rparr>))"
proof -
  have a: "sdp offer = Some offer_sdp"
    by (simp add: offer_def)
  have b: "offer_sdp \<noteq> []"
    by (simp add: offer_sdp_def)
  have c: "LF \<notin> set ''a$1b$''" "\<not> has_replacement_pattern ''a$1b$''"
    by (simp_all add: LF_def)
  have d: "split_lines offer_sdp =
      [''v=0'', ''a=ice-ufrag:abcd'', ''a=ice-pwd:efgh'', ''a=ice-ufrag:second'', []]"
    by (simp add: offer_sdp_def LF_def)
  show ?thesis
    using munge_first_occurrence [OF a b c]
    by (simp add: d rewrite_first_line_def)
qed

text \<open>
  C10. When the body is non-empty and none of its newline-delimited lines starts with
  \<^verbatim>\<open>a=ice-ufrag:\<close> or \<^verbatim>\<open>a=ice-pwd:\<close>, \<open>munge\<close> throws nothing and returns the
  description as it was, whatever the ufrag. The first segment of a body has no line
  feed before it and the last has none after it: such lines are not newline-delimited
  and are left alone.
\<close>

theorem munge_no_delimited_line:
  assumes "sdp desc = Some s" and "s \<noteq> []"
    and "\<forall>l \<in> set (delimited_lines s).
           \<not> prefix ''a=ice-ufrag:'' l \<and> \<not> prefix ''a=ice-pwd:'' l"
  shows "munge desc ufrag = (desc, Inr desc)"
proof -
  have u: "replace_first ufrag_key r s = s" for r
    using replace_first_no_match [OF key_facts(1), of s r] assms(3)
    by (simp add: ufrag_key_def)
  have p: "replace_first pwd_key r s = s" for r
    using replace_first_no_match [OF key_facts(2), of s r] assms(3)
    by (simp add: pwd_key_def)
  have "munge_sdp ufrag s = s"
    by (simp add: munge_sdp_def u p)
  moreover have "desc\<lparr>sdp := Some s\<rparr> = desc"
    using assms(1) by (cases desc) simp
  ultimately show ?thesis
    using assms(1,2) by (simp add: munge_def Let_def)
qed

theorem munge_no_delimited_line_witness:
  "munge undelimited ''0123abcd'' = (undelimited, Inr undelimited)"
proof -
  have a: "sdp undelimited = Some undelimited_sdp"
    by (simp add: undelimited_def)
  have b: "undelimited_sdp \<noteq> []"
    by (simp add: undelimited_sdp_def)
  have "delimited_lines undelimited_sdp = [''v=0'']"
    by (simp add: delimited_lines_def undelimited_sdp_def LF_def)
  then have c: "\<forall>l \<in> set (delimited_lines undelimited_sdp).
      \<not> prefix ''a=ice-ufrag:'' l \<and> \<not> prefix ''a=ice-pwd:'' l"
    by simp
  show ?thesis
    using munge_no_delimited_line [OF a b c] .
qed


section \<open>The synthesized answer\<close>











text \<open>
  The exceptions of \<open>fromMultiAddr\<close>: the one of \<^verbatim>\<open>toOptions()\<close> comes first, then the
  one of the fingerprint derivation; a description is returned exactly when both
  return.
\<close>

lemma fromMultiAddr_toOptions_throws:
  "toOptions ma = Inl e \<Longrightarrow> fromMultiAddr L ma ufrag = Inl e"
  by (simp add: fromMultiAddr_def ma2sdp_def ip_def)

lemma fromMultiAddr_derivation_throws:
  "toOptions ma = Inr opts \<Longrightarrow> certhashToFingerprint L ma = Inl e \<Longrightarrow>
     fromMultiAddr L ma ufrag = Inl e"
  by (simp add: fromMultiAddr_def ma2sdp_def ip_def port_def Let_def)

lemma fromMultiAddr_returns:
  assumes "fromMultiAddr L ma ufrag = Inr answer"
  shows "\<exists>opts CERTFP fp.
           toOptions ma = Inr opts \<and> certhashToFingerprint L ma = Inr (CERTFP, fp)"
proof (cases "toOptions ma")
  case (Inl e)
  then show ?thesis
    using assms fromMultiAddr_toOptions_throws [of ma e L ufrag] by simp
next
  case (Inr opts)
  show ?thesis
  proof (cases "certhashToFingerprint L ma")
    case (Inl e)
    then show ?thesis
      using assms Inr fromMultiAddr_derivation_throws [of ma opts L e ufrag] by simp
  next
    case r: (Inr p)
    with Inr show ?thesis by (cases p) simp
  qed
qed


lemma ipv_addr2: "ipv addr2 = ''IP4''"
proof -
  have "toUpperCase ''ip4'' = ''IP4''"
    by code_simp
  then show ?thesis
    by (simp add: ipv_def addr2_def startsWith_def)
qed




section \<open>The Noise prologue\<close>

lemma generateNoisePrologue_split:
  "generateNoisePrologue L pc ma =
     (case local_multihash L pc of
        Inl e \<Rightarrow> Inl e
      | Inr l \<Rightarrow>
          (case remote_multihash L ma of
             Inl e \<Rightarrow> Inl e
           | Inr r \<Rightarrow> Inr (uint8arrayFromString ''libp2p-webrtc-noise:'' @ l @ r)))"
  by (simp add: generateNoisePrologue_def local_multihash_def remote_multihash_def
      noise_prefix_def Let_def split: option.split list.split sum.split)

lemma local_multihash_A: "local_multihash reference_libs pc_A = Inr fingerprint_A"
  by (simp add: local_multihash_def pc_A_def fp_A_def reference_libs_def remove_colons_def
      hex_value_def multihash_encode_def hash_names_def fingerprint_A_def)

lemma local_multihash_B: "local_multihash reference_libs pc_B = Inr fingerprint_B"
  by (simp add: local_multihash_def pc_B_def fp_B_def reference_libs_def remove_colons_def
      hex_value_def multihash_encode_def hash_names_def fingerprint_B_def)

lemma remote_multihash_A: "remote_multihash reference_libs addr2 = Inr fingerprint_A"
  by (simp add: remote_multihash_def certhash_addr2 mbdecode_test)

lemma remote_multihash_B: "remote_multihash reference_libs addr_B = Inr fingerprint_B"
  by (simp add: remote_multihash_def certhash_addr_B mbdecode_B)

text \<open>
  The draft orders the two multihashes by their decimal renderings: \<open>fingerprint_B\<close>,
  which renders as \<^verbatim>\<open>18,32,170,...\<close>, goes before \<open>fingerprint_A\<close>, which renders
  as \<^verbatim>\<open>18,32,20,...\<close>, whichever of the two is local.
\<close>

lemma draft_sorted_prologue_order:
  "draft_sorted_prologue fingerprint_B fingerprint_A
     = uint8arrayFromString ''libp2p-webrtc-noise:'' @ fingerprint_B @ fingerprint_A
   \<and> draft_sorted_prologue fingerprint_A fingerprint_B
     = uint8arrayFromString ''libp2p-webrtc-noise:'' @ fingerprint_B @ fingerprint_A"
  by code_simp

text \<open>
  C1, as stated, fails. \<open>fingerprint_A\<close> is below \<open>fingerprint_B\<close> in byte order. With
  \<open>fingerprint_B\<close> local and \<open>fingerprint_A\<close> remote the prologue is the prefix, then
  \<open>fingerprint_B\<close>, then \<open>fingerprint_A\<close>: not the ascending order, and not the
  prologue built with the roles exchanged.
\<close>

theorem prologue_symmetry_counterexample:
  "bytes_less fingerprint_A fingerprint_B
   \<and> local_multihash reference_libs pc_B = Inr fingerprint_B
   \<and> remote_multihash reference_libs addr2 = Inr fingerprint_A
   \<and> generateNoisePrologue reference_libs pc_B addr2
       = Inr (uint8arrayFromString ''libp2p-webrtc-noise:'' @ fingerprint_B @ fingerprint_A)
   \<and> generateNoisePrologue reference_libs pc_B addr2
       \<noteq> Inr (uint8arrayFromString ''libp2p-webrtc-noise:'' @ fingerprint_A @ fingerprint_B)
   \<and> generateNoisePrologue reference_libs pc_B addr2
       \<noteq> generateNoisePrologue reference_libs pc_A addr_B"
proof -
  have less: "bytes_less fingerprint_A fingerprint_B"
    by (simp add: fingerprint_A_def fingerprint_B_def)
  have ba: "generateNoisePrologue reference_libs pc_B addr2
      = Inr (uint8arrayFromString ''libp2p-webrtc-noise:'' @ fingerprint_B @ fingerprint_A)"
    by (simp add: generateNoisePrologue_split local_multihash_B remote_multihash_A)
  have ab: "generateNoisePrologue reference_libs pc_A addr_B
      = Inr (uint8arrayFromString ''libp2p-webrtc-noise:'' @ fingerprint_A @ fingerprint_B)"
    by (simp add: generateNoisePrologue_split local_multihash_A remote_multihash_B)
  have ne: "fingerprint_B @ fingerprint_A \<noteq> fingerprint_A @ fingerprint_B"
    by (simp add: fingerprint_A_def fingerprint_B_def)
  show ?thesis
    using less ba ab ne local_multihash_B remote_multihash_A by simp
qed

text \<open>
  C1, amended. The prologue is the prefix \<^verbatim>\<open>libp2p-webrtc-noise:\<close>, then the local
  multihash, then the remote multihash, whatever their byte order. With \<open>F1\<close> local and
  \<open>F2\<close> remote it is prefix, \<open>F1\<close>, \<open>F2\<close>; with the roles exchanged it is prefix,
  \<open>F2\<close>, \<open>F1\<close>; for multihashes of one length (as two sha2-256 multihashes are) the
  two are the same byte string only when \<open>F1 = F2\<close>.
\<close>

theorem prologue_local_then_remote:
  assumes "local_multihash L pc1 = Inr F1" and "remote_multihash L ma1 = Inr F1"
    and "local_multihash L pc2 = Inr F2" and "remote_multihash L ma2 = Inr F2"
  shows "generateNoisePrologue L pc1 ma2
           = Inr (uint8arrayFromString ''libp2p-webrtc-noise:'' @ F1 @ F2)
       \<and> generateNoisePrologue L pc2 ma1
           = Inr (uint8arrayFromString ''libp2p-webrtc-noise:'' @ F2 @ F1)
       \<and> (length F1 = length F2 \<longrightarrow>
            (generateNoisePrologue L pc1 ma2 = generateNoisePrologue L pc2 ma1 \<longleftrightarrow> F1 = F2))"
proof -
  have a: "generateNoisePrologue L pc1 ma2
      = Inr (uint8arrayFromString ''libp2p-webrtc-noise:'' @ F1 @ F2)"
    using assms(1,4) by (simp add: generateNoisePrologue_split)
  have b: "generateNoisePrologue L pc2 ma1
      = Inr (uint8arrayFromString ''libp2p-webrtc-noise:'' @ F2 @ F1)"
    using assms(2,3) by (simp add: generateNoisePrologue_split)
  have "length F1 = length F2 \<Longrightarrow> (F1 @ F2 = F2 @ F1 \<longleftrightarrow> F1 = F2)"
    by auto
  with a b show ?thesis by simp
qed

theorem prologue_local_then_remote_witness:
  "generateNoisePrologue reference_libs pc_A addr_B
     = Inr (uint8arrayFromString ''libp2p-webrtc-noise:'' @ fingerprint_A @ fingerprint_B)
   \<and> generateNoisePrologue reference_libs pc_B addr2
     = Inr (uint8arrayFromString ''libp2p-webrtc-noise:'' @ fingerprint_B @ fingerprint_A)
   \<and> (generateNoisePrologue reference_libs pc_A addr_B
        = generateNoisePrologue reference_libs pc_B addr2 \<longleftrightarrow> fingerprint_A = fingerprint_B)"
proof -
  have "length fingerprint_A = length fingerprint_B"
    by (simp add: fingerprint_A_def fingerprint_B_def)
  then show ?thesis
    using prologue_local_then_remote
      [OF local_multihash_A remote_multihash_A local_multihash_B remote_multihash_B]
    by blast
qed

text \<open>
  The builder runs late in a dial: \<^verbatim>\<open>_connect\<close> has synthesized the answer from the same
  address before. An address for which \<open>fromMultiAddr\<close> returned has a certhash
  component that multibase-decodes, so the remote part of the prologue is there.
\<close>

lemma answer_implies_remote:
  assumes "fromMultiAddr L ma ufrag = Inr answer"
  shows "\<exists>r. remote_multihash L ma = Inr r"
proof -
  obtain CERTFP fp where "certhashToFingerprint L ma = Inr (CERTFP, fp)"
    using fromMultiAddr_returns [OF assms] by blast
  then show ?thesis
    by (auto simp: certhashToFingerprint_def remote_multihash_def split: sum.splits)
qed



end
